theory Spec2Isabelle
  imports Complex_Main
begin

section \<open>JavaScript values\<close>

text \<open>
  The functions of the repository read JSON payloads, query parameters and the process
  environment.  A value is one of JavaScript's primitives, an array or an object; an
  object is the list of its own properties in insertion order (the first binding of a
  key is the one a read finds).  Numbers are exact rationals: the rounding, the
  infinities and the negative zero of IEEE doubles are outside the model, and \<open>NaN\<close>
  is a value of its own.  Strings are byte strings (UTF-8).
\<close>

datatype jsval =
    Undefined
  | Null
  | Bool bool
  | Num rat
  | NaN
  | Str string
  | Arr "jsval list"
  | Obj "(string \<times> jsval) list"

text \<open>A thrown value: an \<open>Error\<close> with its message, or a \<open>TypeError\<close> raised by the
  engine (reading a property of \<open>null\<close>/\<open>undefined\<close>, iterating a value that is not
  iterable); the text of an engine-raised error is engine-specific and the model carries a
  description in its place.\<close>

datatype exn = Error string | TypeError string

fun message :: "exn \<Rightarrow> string" where
  "message (Error m) = m"
| "message (TypeError m) = m"

definition bindE :: "exn + 'a \<Rightarrow> ('a \<Rightarrow> exn + 'b) \<Rightarrow> exn + 'b" where
  "bindE r f = (case r of Inl e \<Rightarrow> Inl e | Inr v \<Rightarrow> f v)"

fun truthy :: "jsval \<Rightarrow> bool" where
  "truthy Undefined = False"
| "truthy Null = False"
| "truthy (Bool b) = b"
| "truthy (Num r) = (r \<noteq> 0)"
| "truthy NaN = False"
| "truthy (Str s) = (s \<noteq> [])"
| "truthy (Arr xs) = True"
| "truthy (Obj kvs) = True"

fun nullish :: "jsval \<Rightarrow> bool" where
  "nullish Undefined = True"
| "nullish Null = True"
| "nullish v = False"

text \<open>\<open>a || b\<close> and \<open>a ?? b\<close>.\<close>

definition js_or :: "jsval \<Rightarrow> jsval \<Rightarrow> jsval" where
  "js_or a b = (if truthy a then a else b)"

definition coalesce :: "jsval \<Rightarrow> jsval \<Rightarrow> jsval" where
  "coalesce a b = (if nullish a then b else a)"

text \<open>
  \<open>get v k\<close> is the optional read \<open>v?.k\<close>, and the plain read \<open>v.k\<close> of a value that
  is not nullish: an object's own property, \<open>undefined\<close> when it has none and on every
  primitive and array (none of the keys the sources read is a built-in property of
  strings, numbers or arrays).  \<open>getE\<close> is the plain read \<open>v.k\<close>, which throws on
  \<open>null\<close> and \<open>undefined\<close>.
\<close>

fun get :: "jsval \<Rightarrow> string \<Rightarrow> jsval" where
  "get (Obj kvs) k = (case map_of kvs k of None \<Rightarrow> Undefined | Some v \<Rightarrow> v)"
| "get v k = Undefined"

definition getE :: "jsval \<Rightarrow> string \<Rightarrow> exn + jsval" where
  "getE v k = (if nullish v then Inl (TypeError ''Cannot read properties of null or undefined'')
               else Inr (get v k))"

fun is_array :: "jsval \<Rightarrow> bool" where
  "is_array (Arr xs) = True"
| "is_array v = False"

fun elems :: "jsval \<Rightarrow> jsval list" where
  "elems (Arr xs) = xs"
| "elems v = []"

subsection \<open>Strings and numbers\<close>

definition digit_char :: "nat \<Rightarrow> char" where
  "digit_char d = ''0123456789'' ! d"

fun show_nat :: "nat \<Rightarrow> string" where
  "show_nat n = (if n < 10 then [digit_char n] else show_nat (n div 10) @ [digit_char (n mod 10)])"

declare show_nat.simps [simp del]

definition show_int :: "int \<Rightarrow> string" where
  "show_int i = (if i < 0 then CHR ''-'' # show_nat (nat (- i)) else show_nat (nat i))"

text \<open>An integer prints as its decimal digits (the engine changes to exponent notation
  from 10^21 on).  For a non-integer, the digits after the decimal point, at most as many
  as the fuel; the engine prints the shortest numeral that reads back as the same double,
  which is the same text on short decimals such as 25.5.\<close>

fun frac_digits :: "nat \<Rightarrow> rat \<Rightarrow> string" where
  "frac_digits 0 r = []"
| "frac_digits (Suc n) r =
     (if r = 0 then []
      else digit_char (nat \<lfloor>r * 10\<rfloor>) # frac_digits n (r * 10 - of_int \<lfloor>r * 10\<rfloor>))"

definition show_num :: "rat \<Rightarrow> string" where
  "show_num r =
     (if r = of_int \<lfloor>r\<rfloor> then show_int \<lfloor>r\<rfloor>
      else (if r < 0 then ''-'' else '''') @ show_nat (nat \<lfloor>\<bar>r\<bar>\<rfloor>) @ ''.''
           @ frac_digits 17 (\<bar>r\<bar> - of_int \<lfloor>\<bar>r\<bar>\<rfloor>))"

fun join :: "string \<Rightarrow> string list \<Rightarrow> string" where
  "join sep [] = []"
| "join sep [x] = x"
| "join sep (x # y # ys) = x @ sep @ join sep (y # ys)"

text \<open>\<open>String(v)\<close>, the conversion a template literal and a string concatenation apply.\<close>

fun to_str :: "jsval \<Rightarrow> string" where
  "to_str Undefined = ''undefined''"
| "to_str Null = ''null''"
| "to_str (Bool b) = (if b then ''true'' else ''false'')"
| "to_str (Num r) = show_num r"
| "to_str NaN = ''NaN''"
| "to_str (Str s) = s"
| "to_str (Arr xs) = join '','' (map (\<lambda>x. if nullish x then [] else to_str x) xs)"
| "to_str (Obj kvs) = ''[object Object]''"

definition is_ws :: "char \<Rightarrow> bool" where
  "is_ws c = (c \<in> set [CHR '' '', CHR 0x09, CHR 0x0A, CHR 0x0B, CHR 0x0C, CHR 0x0D])"

definition trimStart :: "string \<Rightarrow> string" where
  "trimStart s = dropWhile is_ws s"

definition trim :: "string \<Rightarrow> string" where
  "trim s = rev (dropWhile is_ws (rev (dropWhile is_ws s)))"

text \<open>\<open>s.split(c)\<close> for a one-character separator.\<close>

fun split :: "char \<Rightarrow> string \<Rightarrow> string list" where
  "split c [] = [[]]"
| "split c (x # xs) =
     (if x = c then [] # split c xs
      else (case split c xs of [] \<Rightarrow> [[x]] | p # ps \<Rightarrow> (x # p) # ps))"

text \<open>The value of a digit in a radix up to 36.\<close>

definition digit_val :: "char \<Rightarrow> nat option" where
  "digit_val c =
     (let n = (of_char c :: nat) in
      if 48 \<le> n \<and> n \<le> 57 then Some (n - 48)
      else if 97 \<le> n \<and> n \<le> 122 then Some (n - 87)
      else if 65 \<le> n \<and> n \<le> 90 then Some (n - 55)
      else None)"

definition is_digit_in :: "nat \<Rightarrow> char \<Rightarrow> bool" where
  "is_digit_in radix c = (case digit_val c of None \<Rightarrow> False | Some d \<Rightarrow> d < radix)"

definition digits_value :: "nat \<Rightarrow> string \<Rightarrow> nat" where
  "digits_value radix ds = foldl (\<lambda>acc c. acc * radix + the (digit_val c)) 0 ds"

text \<open>A sign in front of a numeral: the factor and the rest.\<close>

fun read_sign :: "string \<Rightarrow> int \<times> string" where
  "read_sign (c # cs) =
     (if c = CHR ''-'' then (- 1, cs) else if c = CHR ''+'' then (1, cs) else (1, c # cs))"
| "read_sign [] = (1, [])"

text \<open>
  \<open>parseInt(s)\<close> with no radix: leading white space and a sign are skipped, a prefix
  \<open>0x\<close>/\<open>0X\<close> selects radix 16, and the longest run of digits is read; with no
  digit the result is \<open>NaN\<close>.
\<close>

definition parseInt :: "string \<Rightarrow> jsval" where
  "parseInt s =
     (let (sgn, t) = read_sign (trimStart s);
          (radix, u) = (if take 2 t = ''0x'' \<or> take 2 t = ''0X'' then (16, drop 2 t) else (10, t));
          ds = takeWhile (is_digit_in radix) u
      in if ds = [] then NaN else Num (of_int (sgn * int (digits_value radix ds))))"

text \<open>
  The longest prefix that is a decimal literal (digits, a fraction, an exponent with at
  least one digit), with its value and the rest of the input.  The literal
  \<open>Infinity\<close> denotes no number of the model and is not read.
\<close>

definition read_exponent :: "string \<Rightarrow> int \<times> string" where
  "read_exponent s =
     (case s of
        [] \<Rightarrow> (0, s)
      | c # cs \<Rightarrow>
          if c = CHR ''e'' \<or> c = CHR ''E'' then
            (let (sgn, t) = read_sign cs; ds = takeWhile (is_digit_in 10) t
             in if ds = [] then (0, s) else (sgn * int (digits_value 10 ds), dropWhile (is_digit_in 10) t))
          else (0, s))"

definition pow10 :: "int \<Rightarrow> rat" where
  "pow10 e = (if 0 \<le> e then 10 ^ nat e else 1 / 10 ^ nat (- e))"

definition read_decimal :: "string \<Rightarrow> (rat \<times> string) option" where
  "read_decimal s =
     (let (sgn, t) = read_sign s;
          ip = takeWhile (is_digit_in 10) t;
          t1 = dropWhile (is_digit_in 10) t;
          (fp, t2) = (case t1 of
                        [] \<Rightarrow> ([], t1)
                      | c # cs \<Rightarrow> if c = CHR ''.'' \<and> (ip \<noteq> [] \<or> takeWhile (is_digit_in 10) cs \<noteq> [])
                                  then (takeWhile (is_digit_in 10) cs, dropWhile (is_digit_in 10) cs)
                                  else ([], t1))
      in if ip = [] \<and> fp = [] then None
         else (let (e, t3) = read_exponent t2;
                   m = of_nat (digits_value 10 ip) + of_nat (digits_value 10 fp) / 10 ^ length fp
               in Some (of_int sgn * m * pow10 e, t3)))"

definition parseFloat :: "string \<Rightarrow> jsval" where
  "parseFloat s = (case read_decimal (trimStart s) of None \<Rightarrow> NaN | Some (v, rest) \<Rightarrow> Num v)"

text \<open>\<open>Number(v)\<close>: a string is a numeral as a whole (decimal, or an unsigned numeral
  with one of the prefixes \<open>0x\<close>, \<open>0o\<close>, \<open>0b\<close>), the empty string is 0.\<close>

definition prefix_radix :: "string \<Rightarrow> nat option" where
  "prefix_radix t =
     (if take 2 t = ''0x'' \<or> take 2 t = ''0X'' then Some 16
      else if take 2 t = ''0o'' \<or> take 2 t = ''0O'' then Some 8
      else if take 2 t = ''0b'' \<or> take 2 t = ''0B'' then Some 2
      else None)"

definition string_to_number :: "string \<Rightarrow> jsval" where
  "string_to_number s =
     (let t = trim s in
      if t = [] then Num 0
      else (case prefix_radix t of
              Some radix \<Rightarrow>
                if drop 2 t \<noteq> [] \<and> list_all (is_digit_in radix) (drop 2 t)
                then Num (of_nat (digits_value radix (drop 2 t))) else NaN
            | None \<Rightarrow> (case read_decimal t of Some (v, []) \<Rightarrow> Num v | _ \<Rightarrow> NaN)))"

fun to_number :: "jsval \<Rightarrow> jsval" where
  "to_number Undefined = NaN"
| "to_number Null = Num 0"
| "to_number (Bool b) = Num (if b then 1 else 0)"
| "to_number (Num r) = Num r"
| "to_number NaN = NaN"
| "to_number (Str s) = string_to_number s"
| "to_number (Arr xs) = string_to_number (to_str (Arr xs))"
| "to_number (Obj kvs) = NaN"

fun is_stringy :: "jsval \<Rightarrow> bool" where
  "is_stringy (Str s) = True"
| "is_stringy (Arr xs) = True"
| "is_stringy (Obj kvs) = True"
| "is_stringy v = False"

text \<open>\<open>a + b\<close>: concatenation when an operand is a string (or an object or array, whose
  primitive is a string), the sum of the operands as numbers otherwise.\<close>

definition js_add :: "jsval \<Rightarrow> jsval \<Rightarrow> jsval" where
  "js_add a b =
     (if is_stringy a \<or> is_stringy b then Str (to_str a @ to_str b)
      else (case (to_number a, to_number b) of (Num x, Num y) \<Rightarrow> Num (x + y) | _ \<Rightarrow> NaN))"

definition js_sub :: "jsval \<Rightarrow> jsval \<Rightarrow> jsval" where
  "js_sub a b = (case (to_number a, to_number b) of (Num x, Num y) \<Rightarrow> Num (x - y) | _ \<Rightarrow> NaN)"

definition js_mul :: "jsval \<Rightarrow> jsval \<Rightarrow> jsval" where
  "js_mul a b = (case (to_number a, to_number b) of (Num x, Num y) \<Rightarrow> Num (x * y) | _ \<Rightarrow> NaN)"

text \<open>\<open>a / b\<close>; a division by zero gives an infinity or \<open>NaN\<close>, written \<open>NaN\<close> here.\<close>

definition js_div :: "jsval \<Rightarrow> jsval \<Rightarrow> jsval" where
  "js_div a b =
     (case (to_number a, to_number b) of
        (Num x, Num y) \<Rightarrow> if y = 0 then NaN else Num (x / y)
      | _ \<Rightarrow> NaN)"

text \<open>\<open>a < b\<close> where an operand is a number: false when either side is \<open>NaN\<close>.\<close>

definition js_lt :: "jsval \<Rightarrow> jsval \<Rightarrow> bool" where
  "js_lt a b = (case (to_number a, to_number b) of (Num x, Num y) \<Rightarrow> x < y | _ \<Rightarrow> False)"

definition Math_floor :: "jsval \<Rightarrow> jsval" where
  "Math_floor v = (case to_number v of Num r \<Rightarrow> Num (of_int \<lfloor>r\<rfloor>) | _ \<Rightarrow> NaN)"

definition Math_round :: "jsval \<Rightarrow> jsval" where
  "Math_round v = (case to_number v of Num r \<Rightarrow> Num (of_int \<lfloor>r + 1 / 2\<rfloor>) | _ \<Rightarrow> NaN)"

definition upper_char :: "char \<Rightarrow> char" where
  "upper_char c =
     (case map_of (zip ''abcdefghijklmnopqrstuvwxyz'' ''ABCDEFGHIJKLMNOPQRSTUVWXYZ'') c of
        None \<Rightarrow> c
      | Some u \<Rightarrow> u)"

text \<open>\<open>s.toUpperCase()\<close> on the ASCII letters; other bytes are kept.\<close>

definition toUpperCase :: "string \<Rightarrow> string" where
  "toUpperCase s = map upper_char s"

section \<open>Shared utilities (utils.js)\<close>

subsection \<open>Season code\<close>

text \<open>
  \<open>buildSeasonCode(code = "E", season = "2025", seasonCodeOverride = null)\<close>: the
  override is \<open>null\<close> (\<open>None\<close>) or a string, and wins when it is truthy.
\<close>

definition buildSeasonCode :: "string \<Rightarrow> string \<Rightarrow> string option \<Rightarrow> string" where
  "buildSeasonCode code season seasonCodeOverride =
     (case seasonCodeOverride of
        Some s \<Rightarrow> if truthy (Str s) then s else toUpperCase code @ season
      | None \<Rightarrow> toUpperCase code @ season)"

text \<open>Query parameters: \<open>Object.fromEntries(url.searchParams.entries())\<close>, a string for
  every parameter that is present.\<close>

type_synonym params = "string \<rightharpoonup> string"

definition param_or :: "params \<Rightarrow> string \<Rightarrow> string \<Rightarrow> string" where
  "param_or ps k d = (case ps k of None \<Rightarrow> d | Some v \<Rightarrow> v)"

definition getSeasonCode :: "params \<Rightarrow> string" where
  "getSeasonCode ps =
     buildSeasonCode (param_or ps ''code'' ''E'') (param_or ps ''season'' ''2025'')
       (case ps ''seasonCode'' of
          None \<Rightarrow> None
        | Some s \<Rightarrow> if truthy (Str s) then Some s else None)"

subsection \<open>The in-memory cache\<close>

text \<open>
  The module-level \<open>Map\<close> is passed explicitly: the list of its entries in insertion
  order.  \<open>Date.now()\<close> is the argument \<open>now\<close> (milliseconds), and
  \<open>new Date().toISOString()\<close> the argument \<open>stamp\<close>.
\<close>

record entry =
  data :: jsval
  expires :: int
  storedAt :: string

type_synonym cache = "(string \<times> entry) list"

fun map_set :: "('k \<times> 'v) list \<Rightarrow> 'k \<Rightarrow> 'v \<Rightarrow> ('k \<times> 'v) list" where
  "map_set [] k v = [(k, v)]"
| "map_set ((k', v') # rest) k v = (if k' = k then (k, v) # rest else (k', v') # map_set rest k v)"

definition map_delete :: "('k \<times> 'v) list \<Rightarrow> 'k \<Rightarrow> ('k \<times> 'v) list" where
  "map_delete m k = filter (\<lambda>kv. fst kv \<noteq> k) m"

definition cache_get :: "cache \<Rightarrow> int \<Rightarrow> string \<Rightarrow> jsval \<times> cache" where
  "cache_get c now key =
     (case map_of c key of
        None \<Rightarrow> (Null, c)
      | Some e \<Rightarrow> if now > expires e then (Null, map_delete c key) else (data e, c))"

definition cache_set :: "cache \<Rightarrow> int \<Rightarrow> string \<Rightarrow> string \<Rightarrow> jsval \<Rightarrow> int \<Rightarrow> cache" where
  "cache_set c now stamp key v ttlSeconds =
     map_set c key \<lparr>data = v, expires = now + ttlSeconds * 1000, storedAt = stamp\<rparr>"

definition cache_has :: "cache \<Rightarrow> int \<Rightarrow> string \<Rightarrow> bool \<times> cache" where
  "cache_has c now key = (let (v, c') = cache_get c now key in (v \<noteq> Null, c'))"

record cache_stats =
  entries :: nat
  keys :: "string list"

definition stats :: "cache \<Rightarrow> cache_stats" where
  "stats c = \<lparr>entries = length c, keys = map fst c\<rparr>"

section \<open>The sync pipeline (sync.js)\<close>

text \<open>
  The repository holds the handler in two versions that differ in the upstream response
  they flatten: \<open>netlify/functions/sync.js\<close> reads the \<open>/boxscore\<close> response, whose
  player entries are flat objects (suffix \<open>_flat\<close> below), and the later version reads
  the \<open>/stats\<close> response, whose entries are \<open>{player, stats}\<close> pairs (suffix
  \<open>_stats\<close>).  \<open>new Date().toISOString()\<close> is the argument \<open>stamp\<close>.
\<close>

subsection \<open>Transforming a boxscore player (flat entries)\<close>

fun is_string :: "jsval \<Rightarrow> bool" where
  "is_string (Str s) = True"
| "is_string v = False"

definition parseMinutes :: "jsval \<Rightarrow> jsval" where
  "parseMinutes minStr =
     (if \<not> truthy minStr \<or> \<not> is_string minStr then Num 0
      else (let parts = split CHR '':'' (to_str minStr) in
            if length parts = 2
            then js_add (parseFloat (parts ! 0)) (js_div (parseFloat (parts ! 1)) (Num 60))
            else js_or (parseFloat (to_str minStr)) (Num 0)))"

definition transformPlayerStats_flat ::
  "jsval \<Rightarrow> jsval \<Rightarrow> jsval \<Rightarrow> bool \<Rightarrow> string \<Rightarrow> exn + jsval" where
  "transformPlayerStats_flat player gameInfo teamInfo isLocal stamp =
     (if nullish player then Inl (TypeError ''Cannot read properties of null or undefined'')
      else Inr (Obj [
        (''game_code'', get gameInfo ''gameCode''),
        (''season_code'', get gameInfo ''seasonCode''),
        (''competition'', get gameInfo ''competition''),
        (''round'', js_or (get gameInfo ''round'') Null),
        (''game_date'', js_or (get gameInfo ''gameDate'') Null),
        (''team_code'', js_or (get teamInfo ''code'') Null),
        (''team_name'', js_or (get teamInfo ''name'') Null),
        (''team_tv_code'', js_or (get teamInfo ''tvCode'') Null),
        (''is_local'', Bool isLocal),
        (''person_code'', js_or (js_or (get player ''personCode'') (get player ''code'')) Null),
        (''player_name'', js_or (get player ''name'') Null),
        (''player_alias'', js_or (get player ''alias'') Null),
        (''dorsal'', js_or (get player ''dorsal'') Null),
        (''position'', js_or (get player ''position'') Null),
        (''is_starter'', coalesce (get player ''isStarter'') (Bool False)),
        (''minutes'', js_or (js_or (get player ''minutes'') (get player ''timePlayed'')) Null),
        (''minutes_decimal'', parseMinutes (js_or (get player ''minutes'') (get player ''timePlayed''))),
        (''points'', coalesce (coalesce (get player ''score'') (get player ''points'')) (Num 0)),
        (''field_goals_made'',
           coalesce (coalesce (js_add (get player ''fieldGoalsMade2'') (get player ''fieldGoalsMade3''))
                       (get player ''fieldGoalsMade'')) (Num 0)),
        (''field_goals_attempted'',
           coalesce (coalesce (js_add (get player ''fieldGoalsAttempted2'') (get player ''fieldGoalsAttempted3''))
                       (get player ''fieldGoalsAttempted'')) (Num 0)),
        (''two_points_made'',
           coalesce (coalesce (get player ''fieldGoalsMade2'') (get player ''twoPointsMade'')) (Num 0)),
        (''two_points_attempted'',
           coalesce (coalesce (get player ''fieldGoalsAttempted2'') (get player ''twoPointsAttempted'')) (Num 0)),
        (''three_points_made'',
           coalesce (coalesce (get player ''fieldGoalsMade3'') (get player ''threePointsMade'')) (Num 0)),
        (''three_points_attempted'',
           coalesce (coalesce (get player ''fieldGoalsAttempted3'') (get player ''threePointsAttempted'')) (Num 0)),
        (''free_throws_made'', coalesce (get player ''freeThrowsMade'') (Num 0)),
        (''free_throws_attempted'', coalesce (get player ''freeThrowsAttempted'') (Num 0)),
        (''offensive_rebounds'', coalesce (get player ''offensiveRebounds'') (Num 0)),
        (''defensive_rebounds'', coalesce (get player ''defensiveRebounds'') (Num 0)),
        (''total_rebounds'',
           coalesce (get player ''totalRebounds'')
             (js_add (coalesce (get player ''offensiveRebounds'') (Num 0))
                     (coalesce (get player ''defensiveRebounds'') (Num 0)))),
        (''assists'', coalesce (coalesce (get player ''assists'') (get player ''assistances'')) (Num 0)),
        (''turnovers'', coalesce (get player ''turnovers'') (Num 0)),
        (''steals'', coalesce (get player ''steals'') (Num 0)),
        (''blocks_favour'', coalesce (coalesce (get player ''blocksFavour'') (get player ''blocks'')) (Num 0)),
        (''blocks_against'', coalesce (get player ''blocksAgainst'') (Num 0)),
        (''fouls_committed'', coalesce (get player ''foulsCommitted'') (Num 0)),
        (''fouls_received'', coalesce (get player ''foulsReceived'') (Num 0)),
        (''pir'', coalesce (coalesce (get player ''valuation'') (get player ''pir'')) (Num 0)),
        (''plus_minus'', coalesce (get player ''plusMinus'') (Num 0)),
        (''raw_data'', player),
        (''synced_at'', Str stamp)]))"

text \<open>
  \<open>for (const p of v)\<close>: the elements of an array, the characters of a string (one byte
  each here); any other value is not iterable.
\<close>

fun iterate :: "jsval \<Rightarrow> exn + jsval list" where
  "iterate (Arr xs) = Inr xs"
| "iterate (Str s) = Inr (map (\<lambda>c. Str [c]) s)"
| "iterate v = Inl (TypeError ''value is not iterable'')"

text \<open>The body of the two \<open>for\<close> loops of \<open>extractPlayers\<close>: \<open>players\<close> is the array
  the rows are pushed on.\<close>

fun pushPlayers_flat ::
  "jsval \<Rightarrow> jsval \<Rightarrow> bool \<Rightarrow> string \<Rightarrow> jsval list \<Rightarrow> jsval list \<Rightarrow> exn + jsval list" where
  "pushPlayers_flat gameInfo teamInfo isLocal stamp players [] = Inr players"
| "pushPlayers_flat gameInfo teamInfo isLocal stamp players (p # ps) =
     bindE (getE p ''personCode'') (\<lambda>personCode.
       if truthy (js_or personCode (get p ''code''))
       then bindE (transformPlayerStats_flat p gameInfo teamInfo isLocal stamp) (\<lambda>row.
              pushPlayers_flat gameInfo teamInfo isLocal stamp (players @ [row]) ps)
       else pushPlayers_flat gameInfo teamInfo isLocal stamp players ps)"

definition sidePlayers_flat :: "jsval \<Rightarrow> string \<Rightarrow> jsval" where
  "sidePlayers_flat data' side =
     js_or (js_or (get (get data' side) ''players'') (get (get data' side) ''playersStats'')) (Arr [])"

definition sideTeam_flat :: "jsval \<Rightarrow> string \<Rightarrow> jsval" where
  "sideTeam_flat data' side =
     Obj [(''code'', js_or (get (get (get data' side) ''club'') ''code'')
                          (get (get (get data' side) ''team'') ''code'')),
          (''name'', js_or (get (get (get data' side) ''club'') ''editorialName'')
                          (get (get (get data' side) ''team'') ''name'')),
          (''tvCode'', js_or (get (get (get data' side) ''club'') ''tvCode'')
                            (get (get (get data' side) ''team'') ''tvCode''))]"

definition mkGameInfo :: "jsval \<Rightarrow> string \<Rightarrow> string \<Rightarrow> jsval \<Rightarrow> jsval \<Rightarrow> jsval" where
  "mkGameInfo gameCode seasonCode competition round' gameDate =
     Obj [(''gameCode'', gameCode), (''seasonCode'', Str seasonCode),
          (''competition'', Str competition), (''round'', round'), (''gameDate'', gameDate)]"

definition extractPlayers_flat ::
  "string \<Rightarrow> jsval \<Rightarrow> jsval \<Rightarrow> string \<Rightarrow> string \<Rightarrow> jsval \<Rightarrow> jsval \<Rightarrow> exn + jsval list" where
  "extractPlayers_flat stamp boxscore gameCode seasonCode competition round' gameDate =
     (let gameInfo = mkGameInfo gameCode seasonCode competition round' gameDate;
          data' = js_or (get boxscore ''stats'') boxscore
      in bindE (iterate (sidePlayers_flat data' ''local'')) (\<lambda>localPlayers.
         bindE (pushPlayers_flat gameInfo (sideTeam_flat data' ''local'') True stamp [] localPlayers)
           (\<lambda>players.
         bindE (iterate (sidePlayers_flat data' ''road'')) (\<lambda>roadPlayers.
           pushPlayers_flat gameInfo (sideTeam_flat data' ''road'') False stamp players roadPlayers))))"

subsection \<open>Transforming a stats entry (\<open>{player, stats}\<close> entries)\<close>

definition transformPlayerStats_stats ::
  "jsval \<Rightarrow> jsval \<Rightarrow> jsval \<Rightarrow> jsval \<Rightarrow> jsval \<Rightarrow> bool \<Rightarrow> string \<Rightarrow> exn + jsval" where
  "transformPlayerStats_stats entry' gameInfo teamCode teamName teamTvCode isLocal stamp =
     (if nullish entry' then Inl (TypeError ''Cannot read properties of null or undefined'')
      else
       (let p = js_or (get entry' ''player'') (Obj []);
            s = js_or (get entry' ''stats'') (Obj []);
            person = js_or (get p ''person'') (Obj []);
            fgm2 = coalesce (get s ''fieldGoalsMade2'') (Num 0);
            fga2 = coalesce (get s ''fieldGoalsAttempted2'') (Num 0);
            fgm3 = coalesce (get s ''fieldGoalsMade3'') (Num 0);
            fga3 = coalesce (get s ''fieldGoalsAttempted3'') (Num 0);
            timePlayed = coalesce (get s ''timePlayed'') (Num 0);
            mins = Math_floor timePlayed;
            secs = Math_round (js_mul (js_sub timePlayed mins) (Num 60));
            minutesStr =
              (if js_lt (Num 0) timePlayed
               then js_add (js_add (js_add mins (Str '':''))
                              (if js_lt secs (Num 10) then Str ''0'' else Str [])) secs
               else Str ''DNP'')
        in Inr (Obj [
          (''game_code'', get gameInfo ''gameCode''),
          (''season_code'', get gameInfo ''seasonCode''),
          (''competition'', get gameInfo ''competition''),
          (''round'', js_or (get gameInfo ''round'') Null),
          (''game_date'', js_or (get gameInfo ''gameDate'') Null),
          (''team_code'', teamCode),
          (''team_name'', teamName),
          (''team_tv_code'', teamTvCode),
          (''is_local'', Bool isLocal),
          (''person_code'', js_or (get person ''code'') Null),
          (''player_name'', js_or (get person ''name'') Null),
          (''player_alias'', js_or (get person ''alias'') Null),
          (''dorsal'',
             js_or (js_or (get p ''dorsal'')
                      (if nullish (get s ''dorsal'') then Undefined else Str (to_str (get s ''dorsal''))))
                   Null),
          (''position'',
             js_or (get p ''positionName'')
                   (if truthy (get p ''position'') then Str (to_str (get p ''position'')) else Null)),
          (''is_starter'', Bool (get s ''startFive'' = Bool True \<or> get s ''startFive2'' = Bool True)),
          (''minutes'', minutesStr),
          (''minutes_decimal'', timePlayed),
          (''points'', coalesce (get s ''points'') (Num 0)),
          (''field_goals_made'', js_add fgm2 fgm3),
          (''field_goals_attempted'', js_add fga2 fga3),
          (''two_points_made'', fgm2),
          (''two_points_attempted'', fga2),
          (''three_points_made'', fgm3),
          (''three_points_attempted'', fga3),
          (''free_throws_made'', coalesce (get s ''freeThrowsMade'') (Num 0)),
          (''free_throws_attempted'', coalesce (get s ''freeThrowsAttempted'') (Num 0)),
          (''offensive_rebounds'', coalesce (get s ''offensiveRebounds'') (Num 0)),
          (''defensive_rebounds'', coalesce (get s ''defensiveRebounds'') (Num 0)),
          (''total_rebounds'',
             coalesce (get s ''totalRebounds'')
               (js_add (coalesce (get s ''offensiveRebounds'') (Num 0))
                       (coalesce (get s ''defensiveRebounds'') (Num 0)))),
          (''assists'', coalesce (get s ''assistances'') (Num 0)),
          (''turnovers'', coalesce (get s ''turnovers'') (Num 0)),
          (''steals'', coalesce (get s ''steals'') (Num 0)),
          (''blocks_favour'', coalesce (get s ''blocksFavour'') (Num 0)),
          (''blocks_against'', coalesce (get s ''blocksAgainst'') (Num 0)),
          (''fouls_committed'', coalesce (get s ''foulsCommited'') (Num 0)),
          (''fouls_received'', coalesce (get s ''foulsReceived'') (Num 0)),
          (''pir'', coalesce (get s ''valuation'') (Num 0)),
          (''plus_minus'', coalesce (get s ''plusMinus'') (Num 0)),
          (''raw_data'', entry'),
          (''synced_at'', Str stamp)])))"

text \<open>\<open>v[0]\<close> of a value that is not nullish.\<close>

fun index0 :: "jsval \<Rightarrow> jsval" where
  "index0 (Arr (x # xs)) = x"
| "index0 (Str (c # cs)) = Str [c]"
| "index0 (Obj kvs) = get (Obj kvs) ''0''"
| "index0 v = Undefined"

text \<open>The body of the inner loop \<open>for (const entry of sideData.players)\<close>.\<close>

fun pushPlayers_stats ::
  "jsval \<Rightarrow> jsval \<Rightarrow> jsval \<Rightarrow> jsval \<Rightarrow> bool \<Rightarrow> string \<Rightarrow> jsval list \<Rightarrow> jsval list
     \<Rightarrow> exn + jsval list" where
  "pushPlayers_stats gameInfo teamCode teamName teamTvCode isLocal stamp players [] = Inr players"
| "pushPlayers_stats gameInfo teamCode teamName teamTvCode isLocal stamp players (e # es) =
     bindE (getE e ''player'') (\<lambda>player.
       let personCode = get (get player ''person'') ''code'' in
       if \<not> truthy personCode
         then pushPlayers_stats gameInfo teamCode teamName teamTvCode isLocal stamp players es
       else if truthy (get player ''type'') \<and> get player ''type'' \<noteq> Str ''J''
         then pushPlayers_stats gameInfo teamCode teamName teamTvCode isLocal stamp players es
       else bindE (transformPlayerStats_stats e gameInfo teamCode teamName teamTvCode isLocal stamp)
              (\<lambda>row. pushPlayers_stats gameInfo teamCode teamName teamTvCode isLocal stamp
                        (players @ [row]) es))"

text \<open>One turn of the outer loop \<open>for (const side of ["local", "road"])\<close>.\<close>

definition extractSide_stats ::
  "string \<Rightarrow> jsval \<Rightarrow> jsval \<Rightarrow> string \<Rightarrow> jsval list \<Rightarrow> exn + jsval list" where
  "extractSide_stats stamp statsData gameInfo side players =
     (let sideData = get statsData side in
      if \<not> truthy (get sideData ''players'') then Inr players
      else
       (let isLocal = (side = ''local'');
            teamObj = js_or (get sideData ''team'') (Obj []);
            firstClub = js_or (get (get (index0 (get sideData ''players'')) ''player'') ''club'') (Obj []);
            teamCode = js_or (js_or (get firstClub ''code'') (get teamObj ''code'')) Null;
            teamName = js_or (js_or (js_or (get firstClub ''editorialName'')
                                           (get firstClub ''abbreviatedName''))
                                    (get teamObj ''name'')) Null;
            teamTvCode = js_or (js_or (get firstClub ''tvCode'') (get teamObj ''tvCode'')) Null
        in bindE (iterate (get sideData ''players'')) (\<lambda>entries'.
             pushPlayers_stats gameInfo teamCode teamName teamTvCode isLocal stamp players entries')))"

definition extractPlayers_stats ::
  "string \<Rightarrow> jsval \<Rightarrow> jsval \<Rightarrow> string \<Rightarrow> string \<Rightarrow> jsval \<Rightarrow> jsval \<Rightarrow> exn + jsval list" where
  "extractPlayers_stats stamp statsData gameCode seasonCode competition round' gameDate =
     (let gameInfo = mkGameInfo gameCode seasonCode competition round' gameDate
      in bindE (extractSide_stats stamp statsData gameInfo ''local'' []) (\<lambda>players.
           extractSide_stats stamp statsData gameInfo ''road'' players))"

subsection \<open>The environment of one invocation\<close>

text \<open>
  What the handler reads from outside: the request (its method and query parameters),
  the process environment, the two HTTP collaborators and the clock.  \<open>upstream\<close>
  answers the n-th request the run sends to the EuroLeague API (request 0 is the game
  list, request j + 1 the boxscore of the j-th eligible game), given its path: either
  \<open>fetch\<close> rejects with a message, or there is a response with a status and the outcome
  of \<open>res.json()\<close> (the parsed value, or the message of the parse error).  \<open>store\<close>
  answers a POST to Supabase, given its URL, the service key, the offset of the batch in
  its upsert and the batch: \<open>fetch\<close> rejects, or there is a response with a status
  and its text.
\<close>

datatype upstream_result = FetchRejected string | UpstreamResponse nat "string + jsval"

datatype store_result = StoreRejected string | StoreResponse nat string

record env =
  preflight :: bool
  query :: params
  service_key :: "string option"
  upstream :: "nat \<Rightarrow> string \<Rightarrow> upstream_result"
  store :: "string \<Rightarrow> string \<Rightarrow> nat \<Rightarrow> jsval list \<Rightarrow> store_result"
  now_iso :: string
  elapsed_ms :: nat

record response =
  status :: nat
  headers :: "(string \<times> string) list"
  body :: jsval

definition corsHeaders :: "(string \<times> string) list" where
  "corsHeaders =
     [(''Access-Control-Allow-Origin'', ''*''),
      (''Access-Control-Allow-Headers'', ''Content-Type''),
      (''Access-Control-Allow-Methods'', ''GET, OPTIONS'')]"

text \<open>The body of a response is the value handed to \<open>JSON.stringify\<close>, which leaves
  out the properties whose value is \<open>undefined\<close>.\<close>

definition jsonResponse :: "jsval \<Rightarrow> nat \<Rightarrow> response" where
  "jsonResponse data' status' =
     \<lparr>status = status', headers = (''Content-Type'', ''application/json'') # corsHeaders, body = data'\<rparr>"

definition errorResponse :: "env \<Rightarrow> string \<Rightarrow> nat \<Rightarrow> response" where
  "errorResponse env msg status' =
     jsonResponse (Obj [(''error'', Str msg), (''timestamp'', Str (now_iso env))]) status'"

definition handleCors :: "env \<Rightarrow> response option" where
  "handleCors env =
     (if preflight env then Some \<lparr>status = 204, headers = corsHeaders, body = Null\<rparr> else None)"

definition res_ok :: "nat \<Rightarrow> bool" where
  "res_ok st = (200 \<le> st \<and> st \<le> 299)"

definition euroFetch :: "env \<Rightarrow> nat \<Rightarrow> string \<Rightarrow> exn + jsval" where
  "euroFetch env n path =
     (case upstream env n path of
        FetchRejected m \<Rightarrow> Inl (TypeError m)
      | UpstreamResponse st parsed \<Rightarrow>
          if \<not> res_ok st
          then Inl (Error (''EuroLeague API returned '' @ show_nat st @ '' for '' @ path))
          else (case parsed of Inl m \<Rightarrow> Inl (Error m) | Inr v \<Rightarrow> Inr v))"

definition getSupabaseKey :: "env \<Rightarrow> exn + string" where
  "getSupabaseKey env =
     (case service_key env of
        Some key \<Rightarrow>
          if key \<noteq> [] then Inr key
          else Inl (Error (''SUPABASE_SERVICE_KEY env var not set. Add it in Netlify ''
                 @ [CHR 0xE2, CHR 0x86, CHR 0x92] @ '' Site config ''
                 @ [CHR 0xE2, CHR 0x86, CHR 0x92] @ '' Environment variables.''))
      | None \<Rightarrow>
          Inl (Error (''SUPABASE_SERVICE_KEY env var not set. Add it in Netlify ''
                 @ [CHR 0xE2, CHR 0x86, CHR 0x92] @ '' Site config ''
                 @ [CHR 0xE2, CHR 0x86, CHR 0x92] @ '' Environment variables.'')))"

subsection \<open>The upsert helper\<close>

definition SUPABASE_URL :: string where
  "SUPABASE_URL = ''https://knthptmdwgzkpfopceku.supabase.co''"

text \<open>The result object \<open>{ ok, count, errors }\<close>; sync.js returns \<open>{ ok: true, count: 0 }\<close>,
  with no \<open>errors\<close>, for an empty list of rows.\<close>

record upsert_result =
  up_ok :: bool
  up_count :: nat
  up_errors :: "string list option"

text \<open>The loop \<open>for (let i = 0; i < rows.length; i += batchSize)\<close> with its two
  accumulators.\<close>

function upsertLoop ::
  "env \<Rightarrow> string \<Rightarrow> string \<Rightarrow> string \<Rightarrow> jsval list \<Rightarrow> nat \<Rightarrow> nat \<Rightarrow> string list
     \<Rightarrow> exn + (nat \<times> string list)" where
  "upsertLoop env url table serviceKey rows i total' errors =
     (if i < length rows then
        (let batch = take 50 (drop i rows) in
         case store env url serviceKey i batch of
           StoreRejected m \<Rightarrow> Inl (TypeError m)
         | StoreResponse st errText \<Rightarrow>
             if res_ok st
             then upsertLoop env url table serviceKey rows (i + 50) (total' + length batch) errors
             else upsertLoop env url table serviceKey rows (i + 50) total'
                    (errors @ [table @ '' batch '' @ show_nat (i div 50 + 1) @ '': '' @ show_nat st
                               @ '' '' @ [CHR 0xE2, CHR 0x80, CHR 0x94] @ '' '' @ errText]))
      else Inr (total', errors))"
  by pat_completeness auto
termination
  by (relation "measure (\<lambda>(env, url, table, serviceKey, rows, i, total', errors). length rows - i)") auto

declare upsertLoop.simps [simp del]

definition supabaseUpsert_flat :: "env \<Rightarrow> string \<Rightarrow> jsval list \<Rightarrow> string \<Rightarrow> exn + upsert_result" where
  "supabaseUpsert_flat env table rows serviceKey =
     (if length rows = 0 then Inr \<lparr>up_ok = True, up_count = 0, up_errors = None\<rparr>
      else bindE (upsertLoop env (SUPABASE_URL @ ''/rest/v1/'' @ table) table serviceKey rows 0 0 [])
             (\<lambda>(total', errors).
                Inr \<lparr>up_ok = (length errors = 0), up_count = total', up_errors = Some errors\<rparr>))"

definition supabaseUpsert_stats ::
  "env \<Rightarrow> string \<Rightarrow> jsval list \<Rightarrow> string \<Rightarrow> string \<Rightarrow> exn + upsert_result" where
  "supabaseUpsert_stats env table rows serviceKey onConflict =
     (if length rows = 0 then Inr \<lparr>up_ok = True, up_count = 0, up_errors = Some []\<rparr>
      else
       (let conflictParam = (if onConflict \<noteq> [] then ''?on_conflict='' @ onConflict else [])
        in bindE (upsertLoop env (SUPABASE_URL @ ''/rest/v1/'' @ table @ conflictParam) table
                    serviceKey rows 0 0 [])
             (\<lambda>(total', errors).
                Inr \<lparr>up_ok = (length errors = 0), up_count = total', up_errors = Some errors\<rparr>)))"

subsection \<open>Transforming a game\<close>

definition transformGame :: "string \<Rightarrow> string \<Rightarrow> string \<Rightarrow> jsval \<Rightarrow> exn + jsval" where
  "transformGame stamp seasonCode competition game =
     (if nullish game then Inl (TypeError ''Cannot read properties of null or undefined'')
      else Inr (Obj [
        (''game_code'', get game ''gameCode''),
        (''season_code'', Str seasonCode),
        (''competition'', Str competition),
        (''identifier'', js_or (get game ''identifier'')
                           (Str (seasonCode @ ''_'' @ to_str (get game ''gameCode'')))),
        (''round'', js_or (get game ''round'') Null),
        (''round_alias'', js_or (get game ''roundAlias'') Null),
        (''game_status'', js_or (get game ''gameStatus'')
                           (if truthy (get game ''played'') then Str ''Played'' else Str ''Scheduled'')),
        (''played'', js_or (get game ''played'') (Bool False)),
        (''game_date'', js_or (js_or (get game ''utcDate'') (get game ''date'')) Null),
        (''local_code'', js_or (get (get (get game ''local'') ''club'') ''code'') Null),
        (''local_name'', js_or (js_or (get (get (get game ''local'') ''club'') ''editorialName'')
                                     (get (get (get game ''local'') ''club'') ''abbreviatedName'')) Null),
        (''local_full_name'', js_or (get (get (get game ''local'') ''club'') ''name'') Null),
        (''local_tv_code'', js_or (get (get (get game ''local'') ''club'') ''tvCode'') Null),
        (''local_logo'', js_or (get (get (get (get game ''local'') ''club'') ''images'') ''crest'') Null),
        (''local_score'', coalesce (get (get game ''local'') ''score'') (Num 0)),
        (''local_q1'', coalesce (get (get (get game ''local'') ''partials'') ''partials1'') Null),
        (''local_q2'', coalesce (get (get (get game ''local'') ''partials'') ''partials2'') Null),
        (''local_q3'', coalesce (get (get (get game ''local'') ''partials'') ''partials3'') Null),
        (''local_q4'', coalesce (get (get (get game ''local'') ''partials'') ''partials4'') Null),
        (''local_ot'', js_or (get (get (get game ''local'') ''partials'') ''extraPeriods'') (Obj [])),
        (''road_code'', js_or (get (get (get game ''road'') ''club'') ''code'') Null),
        (''road_name'', js_or (js_or (get (get (get game ''road'') ''club'') ''editorialName'')
                                    (get (get (get game ''road'') ''club'') ''abbreviatedName'')) Null),
        (''road_full_name'', js_or (get (get (get game ''road'') ''club'') ''name'') Null),
        (''road_tv_code'', js_or (get (get (get game ''road'') ''club'') ''tvCode'') Null),
        (''road_logo'', js_or (get (get (get (get game ''road'') ''club'') ''images'') ''crest'') Null),
        (''road_score'', coalesce (get (get game ''road'') ''score'') (Num 0)),
        (''road_q1'', coalesce (get (get (get game ''road'') ''partials'') ''partials1'') Null),
        (''road_q2'', coalesce (get (get (get game ''road'') ''partials'') ''partials2'') Null),
        (''road_q3'', coalesce (get (get (get game ''road'') ''partials'') ''partials3'') Null),
        (''road_q4'', coalesce (get (get (get game ''road'') ''partials'') ''partials4'') Null),
        (''road_ot'', js_or (get (get (get game ''road'') ''partials'') ''extraPeriods'') (Obj [])),
        (''venue_name'', js_or (get (get game ''venue'') ''name'') Null),
        (''audience'', js_or (get game ''audience'') Null),
        (''raw_data'', game),
        (''synced_at'', Str stamp)]))"

subsection \<open>Array callbacks that may throw\<close>

fun mapE :: "('a \<Rightarrow> exn + 'b) \<Rightarrow> 'a list \<Rightarrow> exn + 'b list" where
  "mapE f [] = Inr []"
| "mapE f (x # xs) = bindE (f x) (\<lambda>y. bindE (mapE f xs) (\<lambda>ys. Inr (y # ys)))"

fun filterE :: "('a \<Rightarrow> exn + bool) \<Rightarrow> 'a list \<Rightarrow> exn + 'a list" where
  "filterE p [] = Inr []"
| "filterE p (x # xs) = bindE (p x) (\<lambda>b. bindE (filterE p xs) (\<lambda>ys. Inr (if b then x # ys else ys)))"

fun foldE :: "('a \<Rightarrow> 'b \<Rightarrow> exn + 'a) \<Rightarrow> 'a \<Rightarrow> 'b list \<Rightarrow> exn + 'a" where
  "foldE f a [] = Inr a"
| "foldE f a (x # xs) = bindE (f a x) (\<lambda>a'. foldE f a' xs)"

subsection \<open>Stage 2: the games filter\<close>

text \<open>\<open>new Set(gamesFilter.split(",").map(g => parseInt(g.trim())))\<close>, as the list of
  its members, and \<open>gamesList.filter(g => filterSet.has(g.gameCode))\<close>.\<close>

definition filterSet :: "string \<Rightarrow> jsval list" where
  "filterSet gamesFilter = map (\<lambda>g. parseInt (trim g)) (split CHR '','' gamesFilter)"

definition applyGamesFilter :: "string option \<Rightarrow> jsval list \<Rightarrow> exn + jsval list" where
  "applyGamesFilter gamesFilter gamesList =
     (case gamesFilter of
        None \<Rightarrow> Inr gamesList
      | Some f \<Rightarrow>
          if truthy (Str f)
          then filterE (\<lambda>g. bindE (getE g ''gameCode'') (\<lambda>c. Inr (c \<in> set (filterSet f)))) gamesList
          else Inr gamesList)"

subsection \<open>Stage 4: the boxscore fan-out\<close>

datatype version = Flat | Stats

definition extractPlayers ::
  "version \<Rightarrow> string \<Rightarrow> jsval \<Rightarrow> jsval \<Rightarrow> string \<Rightarrow> string \<Rightarrow> jsval \<Rightarrow> jsval \<Rightarrow> exn + jsval list" where
  "extractPlayers v =
     (case v of Flat \<Rightarrow> extractPlayers_flat | Stats \<Rightarrow> extractPlayers_stats)"

definition boxscorePath :: "version \<Rightarrow> string \<Rightarrow> string \<Rightarrow> jsval \<Rightarrow> string" where
  "boxscorePath v code seasonCode gameCode =
     ''/competitions/'' @ toUpperCase code @ ''/seasons/'' @ seasonCode @ ''/games/''
       @ to_str gameCode @ (case v of Flat \<Rightarrow> ''/boxscore'' | Stats \<Rightarrow> ''/stats'')"

text \<open>The games a boxscore is fetched for, and the games the result counts as eligible.\<close>

definition eligibleGame :: "jsval \<Rightarrow> bool" where
  "eligibleGame g =
     (get g ''played'' = Bool True \<or> get g ''gameStatus'' = Str ''Played''
      \<or> get g ''gameStatus'' = Str ''Live'' \<or> get g ''gameStatus'' = Str ''Playing'')"

definition isEligible :: "jsval \<Rightarrow> exn + bool" where
  "isEligible g = bindE (getE g ''played'') (\<lambda>played. Inr (eligibleGame g))"

definition countedEligible :: "jsval \<Rightarrow> bool" where
  "countedEligible g =
     (truthy (get g ''played'') \<or> get g ''gameStatus'' = Str ''Live''
      \<or> get g ''gameStatus'' = Str ''Playing'')"

text \<open>
  A settled promise of \<open>Promise.allSettled\<close>.  The callback of \<open>batch.map\<close> catches what
  \<open>euroFetch\<close> throws and returns \<open>{ gameCode, error }\<close>; else it returns
  \<open>{ gameCode, boxscore, game }\<close>.  \<open>n\<close> is the position of the game among the eligible
  games.
\<close>

datatype settled = Fulfilled jsval | RejectedWith exn

definition fetchOne :: "version \<Rightarrow> env \<Rightarrow> string \<Rightarrow> string \<Rightarrow> nat \<times> jsval \<Rightarrow> settled" where
  "fetchOne v env code seasonCode ng =
     (case ng of (n, game) \<Rightarrow>
        (case getE game ''gameCode'' of
           Inl e \<Rightarrow> RejectedWith e
         | Inr gameCode \<Rightarrow>
             (case euroFetch env (Suc n) (boxscorePath v code seasonCode gameCode) of
                Inr bs \<Rightarrow> Fulfilled (Obj [(''gameCode'', gameCode), (''boxscore'', bs), (''game'', game)])
              | Inl err \<Rightarrow> Fulfilled (Obj [(''gameCode'', gameCode), (''error'', Str (message err))]))))"

text \<open>\<open>boxscoreStats\<close> and \<open>allPlayerRows\<close>, the state of the fan-out.\<close>

record boxscore_stats =
  bs_fetched :: nat
  bs_players :: nat
  bs_errors :: "string list"

text \<open>The body of \<open>for (const result of boxscoreResults)\<close>.\<close>

definition absorbResult ::
  "version \<Rightarrow> env \<Rightarrow> string \<Rightarrow> string \<Rightarrow> boxscore_stats \<times> jsval list \<Rightarrow> settled
     \<Rightarrow> exn + boxscore_stats \<times> jsval list" where
  "absorbResult v env code seasonCode acc result =
     (case acc of (boxscoreStats, allPlayerRows) \<Rightarrow>
        (case result of
           RejectedWith e \<Rightarrow> Inr (boxscoreStats, allPlayerRows)
         | Fulfilled val \<Rightarrow>
             if truthy (get val ''error'')
             then Inr (boxscoreStats\<lparr>bs_errors := bs_errors boxscoreStats
                          @ [''Game '' @ to_str (get val ''gameCode'') @ '': '' @ to_str (get val ''error'')]\<rparr>,
                       allPlayerRows)
             else bindE (getE (get val ''game'') ''round'') (\<lambda>round'.
                  bindE (extractPlayers v (now_iso env) (get val ''boxscore'') (get val ''gameCode'')
                           seasonCode (toUpperCase code) round'
                           (js_or (get (get val ''game'') ''utcDate'') (get (get val ''game'') ''date'')))
                    (\<lambda>playerRows.
                       Inr (boxscoreStats\<lparr>bs_fetched := Suc (bs_fetched boxscoreStats)\<rparr>,
                            allPlayerRows @ playerRows)))))"

text \<open>The loop \<open>for (let i = 0; i < eligibleGames.length; i += concurrency)\<close>: the
  requests of a batch are sent in the order of the batch, and their results are read in
  that order once all have settled.\<close>

function fetchBoxscores ::
  "version \<Rightarrow> env \<Rightarrow> string \<Rightarrow> string \<Rightarrow> jsval list \<Rightarrow> nat \<Rightarrow> boxscore_stats \<times> jsval list
     \<Rightarrow> exn + boxscore_stats \<times> jsval list" where
  "fetchBoxscores v env code seasonCode eligibleGames i acc =
     (if i < length eligibleGames then
        (let batch = take 5 (drop i eligibleGames);
             boxscoreResults = map (fetchOne v env code seasonCode) (zip [i ..< i + length batch] batch)
         in bindE (foldE (absorbResult v env code seasonCode) acc boxscoreResults)
              (\<lambda>acc'. fetchBoxscores v env code seasonCode eligibleGames (i + 5) acc'))
      else Inr acc)"
  by pat_completeness auto
termination
  by (relation "measure (\<lambda>(v, env, code, seasonCode, eligibleGames, i, acc). length eligibleGames - i)") auto

declare fetchBoxscores.simps [simp del]

definition supabaseUpsert ::
  "version \<Rightarrow> env \<Rightarrow> string \<Rightarrow> jsval list \<Rightarrow> string \<Rightarrow> string \<Rightarrow> exn + upsert_result" where
  "supabaseUpsert v env table rows serviceKey onConflict =
     (case v of
        Flat \<Rightarrow> supabaseUpsert_flat env table rows serviceKey
      | Stats \<Rightarrow> supabaseUpsert_stats env table rows serviceKey onConflict)"

text \<open>Step 4 of the handler: the rows of all fetched games go to \<open>player_stats\<close>.\<close>

definition upsertPlayerStats ::
  "version \<Rightarrow> env \<Rightarrow> string \<Rightarrow> boxscore_stats \<times> jsval list \<Rightarrow> exn + boxscore_stats" where
  "upsertPlayerStats v env serviceKey acc =
     (case acc of (boxscoreStats, allPlayerRows) \<Rightarrow>
        if length allPlayerRows > 0
        then bindE (supabaseUpsert v env ''player_stats'' allPlayerRows serviceKey
                      ''season_code,game_code,person_code'')
               (\<lambda>psResult.
                  case up_errors psResult of
                    None \<Rightarrow> Inl (TypeError ''Cannot read properties of undefined'')
                  | Some errs \<Rightarrow>
                      Inr (boxscoreStats\<lparr>bs_players := up_count psResult,
                             bs_errors := bs_errors boxscoreStats @ (if length errs > 0 then errs else [])\<rparr>))
        else Inr boxscoreStats)"

text \<open>Steps 3 and 4 of the handler, run when \<open>doBoxscores\<close> holds.\<close>

definition boxscoreStage ::
  "version \<Rightarrow> env \<Rightarrow> string \<Rightarrow> string \<Rightarrow> string \<Rightarrow> jsval list \<Rightarrow> exn + boxscore_stats" where
  "boxscoreStage v env code seasonCode serviceKey gamesList =
     bindE (filterE isEligible gamesList) (\<lambda>eligibleGames.
     bindE (fetchBoxscores v env code seasonCode eligibleGames 0
              (\<lparr>bs_fetched = 0, bs_players = 0, bs_errors = []\<rparr>, []))
       (upsertPlayerStats v env serviceKey))"

subsection \<open>The handler\<close>

text \<open>What a run that reaches the final \<open>jsonResponse\<close> has computed.\<close>

record outcome =
  o_seasonCode :: string
  o_code :: string
  o_gamesList :: "jsval list"
  o_gamesResult :: upsert_result
  o_doBoxscores :: bool
  o_boxscoreStats :: boxscore_stats

text \<open>\<open>errs.length > 0 ? errs : undefined\<close> and its capped form
  \<open>errs.length > 0 ? errs.slice(0, 5) : undefined\<close>.\<close>

definition errorsOrUndefined :: "string list \<Rightarrow> jsval" where
  "errorsOrUndefined errs = (if length errs > 0 then Arr (map Str errs) else Undefined)"

definition cappedErrors :: "string list \<Rightarrow> jsval" where
  "cappedErrors errs = (if length errs > 0 then Arr (map Str (take 5 errs)) else Undefined)"

definition respond_flat :: "env \<Rightarrow> outcome \<Rightarrow> response" where
  "respond_flat env r =
     jsonResponse (Obj [
       (''success'', Bool True),
       (''seasonCode'', Str (o_seasonCode r)),
       (''competition'', Str (toUpperCase (o_code r))),
       (''games'', Obj [
          (''found'', Num (of_nat (length (o_gamesList r)))),
          (''upserted'', Num (of_nat (up_count (o_gamesResult r)))),
          (''errors'', (case up_errors (o_gamesResult r) of
                         None \<Rightarrow> Undefined
                       | Some errs \<Rightarrow> errorsOrUndefined errs))]),
       (''boxscores'',
          if o_doBoxscores r then
            Obj [(''eligible'', Num (of_nat (length (filter countedEligible (o_gamesList r))))),
                 (''fetched'', Num (of_nat (bs_fetched (o_boxscoreStats r)))),
                 (''playersUpserted'', Num (of_nat (bs_players (o_boxscoreStats r)))),
                 (''errors'', errorsOrUndefined (bs_errors (o_boxscoreStats r)))]
          else Str ''skipped''),
       (''elapsed'', Str (show_nat (elapsed_ms env) @ ''ms'')),
       (''timestamp'', Str (now_iso env))]) 200"

definition respond_stats :: "env \<Rightarrow> outcome \<Rightarrow> response" where
  "respond_stats env r =
     jsonResponse (Obj [
       (''success'', Bool True),
       (''seasonCode'', Str (o_seasonCode r)),
       (''competition'', Str (toUpperCase (o_code r))),
       (''gamesFound'', Num (of_nat (length (o_gamesList r)))),
       (''gamesUpserted'', Num (of_nat (up_count (o_gamesResult r)))),
       (''boxscores'',
          if o_doBoxscores r then
            Obj [(''eligible'', Num (of_nat (length (filter countedEligible (o_gamesList r))))),
                 (''fetched'', Num (of_nat (bs_fetched (o_boxscoreStats r)))),
                 (''playersUpserted'', Num (of_nat (bs_players (o_boxscoreStats r)))),
                 (''errors'', cappedErrors (bs_errors (o_boxscoreStats r)))]
          else Str ''skipped''),
       (''errors'', (case up_errors (o_gamesResult r) of
                      None \<Rightarrow> Undefined
                    | Some errs \<Rightarrow> cappedErrors errs)),
       (''elapsed'', Str (show_nat (elapsed_ms env) @ ''ms'')),
       (''timestamp'', Str (now_iso env))]) 200"

definition respond :: "version \<Rightarrow> env \<Rightarrow> outcome \<Rightarrow> response" where
  "respond v = (case v of Flat \<Rightarrow> respond_flat | Stats \<Rightarrow> respond_stats)"

text \<open>The body of the \<open>try\<close> block: it throws, returns the response of the stage-1
  shape check (\<open>Inl\<close>), or reaches the final response with an outcome (\<open>Inr\<close>).\<close>

definition gamesPath :: "string \<Rightarrow> string \<Rightarrow> string" where
  "gamesPath code seasonCode = ''/competitions/'' @ toUpperCase code @ ''/seasons/'' @ seasonCode @ ''/games''"

definition run :: "version \<Rightarrow> env \<Rightarrow> exn + (response + outcome)" where
  "run v env =
     (let params' = query env;
          code = param_or params' ''code'' ''E'';
          gamesFilter = params' ''games'';
          skipBoxscores = params' ''skipBoxscores'';
          seasonCode = getSeasonCode params'
      in bindE (getSupabaseKey env) (\<lambda>serviceKey.
         let doBoxscores = (skipBoxscores \<noteq> Some ''true'' \<and> skipBoxscores \<noteq> Some ''1'')
         in bindE (euroFetch env 0 (gamesPath code seasonCode)) (\<lambda>gamesData.
            bindE (if is_array gamesData then Inr gamesData
                   else bindE (getE gamesData ''data'') (\<lambda>d. Inr (js_or d gamesData))) (\<lambda>gamesList0.
            if \<not> is_array gamesList0
            then Inr (Inl (errorResponse env ''Unexpected API response format'' 500))
            else
              bindE (applyGamesFilter gamesFilter (elems gamesList0)) (\<lambda>gamesList.
              bindE (mapE (transformGame (now_iso env) seasonCode (toUpperCase code)) gamesList) (\<lambda>gameRows.
              bindE (supabaseUpsert v env ''live_games'' gameRows serviceKey ''season_code,game_code'')
                (\<lambda>gamesResult.
              bindE (if doBoxscores then boxscoreStage v env code seasonCode serviceKey gamesList
                     else Inr \<lparr>bs_fetched = 0, bs_players = 0, bs_errors = []\<rparr>) (\<lambda>boxscoreStats.
                Inr (Inr \<lparr>o_seasonCode = seasonCode, o_code = code, o_gamesList = gamesList,
                          o_gamesResult = gamesResult, o_doBoxscores = doBoxscores,
                          o_boxscoreStats = boxscoreStats\<rparr>)))))))))"

definition sync :: "version \<Rightarrow> env \<Rightarrow> response" where
  "sync v env =
     (case handleCors env of
        Some corsRes \<Rightarrow> corsRes
      | None \<Rightarrow>
          (case run v env of
             Inl err \<Rightarrow> errorResponse env (''Sync failed: '' @ message err) 500
           | Inr (Inl early) \<Rightarrow> early
           | Inr (Inr r) \<Rightarrow> respond v env r))"

subsection \<open>The fan-out, game by game\<close>

text \<open>
  The eligible games with their positions; for the game at a position, what its boxscore
  request returns, whether it failed, the error entry of a failure and the rows of a
  success.  A fetch is benign when the game is not \<open>null\<close>, the message of a rejected
  \<open>fetch\<close> or of a JSON parse error is not empty (as the runtime's messages are), and a
  fetched boxscore is one \<open>extractPlayers\<close> can read without throwing; a response with a
  status outside 200..299 is always benign.
\<close>

definition numbered :: "'a list \<Rightarrow> (nat \<times> 'a) list" where
  "numbered xs = zip [0 ..< length xs] xs"

definition gameOutcome :: "version \<Rightarrow> env \<Rightarrow> string \<Rightarrow> string \<Rightarrow> nat \<times> jsval \<Rightarrow> exn + jsval" where
  "gameOutcome v env code seasonCode ng =
     euroFetch env (Suc (fst ng)) (boxscorePath v code seasonCode (get (snd ng) ''gameCode''))"

definition fetchFailed :: "version \<Rightarrow> env \<Rightarrow> string \<Rightarrow> string \<Rightarrow> nat \<times> jsval \<Rightarrow> bool" where
  "fetchFailed v env code seasonCode ng =
     (case gameOutcome v env code seasonCode ng of Inl e \<Rightarrow> True | Inr bs \<Rightarrow> False)"

definition errorEntry :: "version \<Rightarrow> env \<Rightarrow> string \<Rightarrow> string \<Rightarrow> nat \<times> jsval \<Rightarrow> string" where
  "errorEntry v env code seasonCode ng =
     ''Game '' @ to_str (get (snd ng) ''gameCode'') @ '': ''
       @ (case gameOutcome v env code seasonCode ng of Inl e \<Rightarrow> message e | Inr bs \<Rightarrow> [])"

definition playersOf :: "version \<Rightarrow> env \<Rightarrow> string \<Rightarrow> string \<Rightarrow> jsval \<Rightarrow> jsval \<Rightarrow> exn + jsval list" where
  "playersOf v env code seasonCode game bs =
     extractPlayers v (now_iso env) bs (get game ''gameCode'') seasonCode (toUpperCase code)
       (get game ''round'') (js_or (get game ''utcDate'') (get game ''date''))"

definition rowsOfGame :: "version \<Rightarrow> env \<Rightarrow> string \<Rightarrow> string \<Rightarrow> nat \<times> jsval \<Rightarrow> jsval list" where
  "rowsOfGame v env code seasonCode ng =
     (case gameOutcome v env code seasonCode ng of
        Inl e \<Rightarrow> []
      | Inr bs \<Rightarrow> (case playersOf v env code seasonCode (snd ng) bs of Inl e \<Rightarrow> [] | Inr rows \<Rightarrow> rows))"

definition benignFetch :: "version \<Rightarrow> env \<Rightarrow> string \<Rightarrow> string \<Rightarrow> nat \<times> jsval \<Rightarrow> bool" where
  "benignFetch v env code seasonCode ng =
     (\<not> nullish (snd ng)
      \<and> (case upstream env (Suc (fst ng))
                  (boxscorePath v code seasonCode (get (snd ng) ''gameCode'')) of
            FetchRejected m \<Rightarrow> m \<noteq> []
          | UpstreamResponse st parsed \<Rightarrow>
              if res_ok st
              then (case parsed of
                      Inl m \<Rightarrow> m \<noteq> []
                    | Inr bs \<Rightarrow> (case playersOf v env code seasonCode (snd ng) bs of
                                  Inl e \<Rightarrow> False
                                | Inr rows \<Rightarrow> True))
              else True))"

text \<open>The games stage 2 keeps, for a list of games none of which is \<open>null\<close>.\<close>

definition keptGames :: "string option \<Rightarrow> jsval list \<Rightarrow> jsval list" where
  "keptGames gamesFilter gamesList =
     (case gamesFilter of
        None \<Rightarrow> gamesList
      | Some f \<Rightarrow> if f = [] then gamesList
                  else filter (\<lambda>g. get g ''gameCode'' \<in> set (filterSet f)) gamesList)"

subsection \<open>The requests of an upsert\<close>








subsection \<open>Reading rows\<close>

text \<open>A field of the row a transform returns, \<open>None\<close> when it threw; the upstream
  entries (\<open>raw_data\<close>) of the rows an extraction returns.\<close>

definition row_field :: "exn + jsval \<Rightarrow> string \<Rightarrow> jsval option" where
  "row_field r k = (case r of Inl e \<Rightarrow> None | Inr row \<Rightarrow> Some (get row k))"





subsection \<open>Example invocations\<close>

text \<open>Concrete requests and collaborators, used to run the handler on the scenarios of
  the specification.\<close>

definition played_game :: "nat \<Rightarrow> jsval" where
  "played_game n = Obj [(''gameCode'', Num (of_nat n)), (''played'', Bool True)]"

definition one_player_boxscore :: "string \<Rightarrow> jsval" where
  "one_player_boxscore personCode =
     Obj [(''local'', Obj [(''players'', Arr [Obj [(''personCode'', Str personCode),
                                                   (''minutes'', Str ''25:30'')]])])]"

definition example_env ::
  "(nat \<Rightarrow> string \<Rightarrow> upstream_result) \<Rightarrow> (string \<Rightarrow> string \<Rightarrow> nat \<Rightarrow> jsval list \<Rightarrow> store_result)
     \<Rightarrow> params \<Rightarrow> env" where
  "example_env up st q =
     \<lparr>preflight = False, query = q, service_key = Some ''service-key'', upstream = up, store = st,
      now_iso = ''2026-01-01T00:00:00.000Z'', elapsed_ms = 12\<rparr>"

definition store_accepts :: "string \<Rightarrow> string \<Rightarrow> nat \<Rightarrow> jsval list \<Rightarrow> store_result" where
  "store_accepts url key i batch = StoreResponse 201 []"

definition store_refuses :: "string \<Rightarrow> string \<Rightarrow> nat \<Rightarrow> jsval list \<Rightarrow> store_result" where
  "store_refuses url key i batch = StoreResponse 500 ''unavailable''"

text \<open>Games 1, 2 and 7 are played; the boxscore of game 7 (the third request) answers 404.\<close>

definition env_1_2_7 :: "(string \<Rightarrow> string \<Rightarrow> nat \<Rightarrow> jsval list \<Rightarrow> store_result) \<Rightarrow> env" where
  "env_1_2_7 st =
     example_env
       (\<lambda>n path. if n = 0 then UpstreamResponse 200 (Inr (Arr [played_game 1, played_game 2, played_game 7]))
                  else if n = 3 then UpstreamResponse 404 (Inl [])
                  else UpstreamResponse 200 (Inr (one_player_boxscore ''P1'')))
       st Map.empty"


text \<open>Six played games; every boxscore request is rejected.\<close>

definition env_six_failures :: env where
  "env_six_failures =
     example_env
       (\<lambda>n path. if n = 0 then UpstreamResponse 200 (Inr (Arr (map played_game [1, 2, 3, 4, 5, 6])))
                  else FetchRejected ''fetch failed'')
       store_accepts Map.empty"

text \<open>The game list itself answers 404.\<close>

definition env_games_404 :: env where
  "env_games_404 = example_env (\<lambda>n path. UpstreamResponse 404 (Inl [])) store_accepts Map.empty"

text \<open>One game whose status is "Played", with no \<open>played\<close> flag.\<close>

definition env_status_played :: env where
  "env_status_played =
     example_env
       (\<lambda>n path. if n = 0
                  then UpstreamResponse 200 (Inr (Arr [Obj [(''gameCode'', Num 1), (''gameStatus'', Str ''Played'')]]))
                  else UpstreamResponse 200 (Inr (one_player_boxscore ''P1'')))
       store_accepts Map.empty"



text \<open>The game list answers with an object that holds no list.\<close>

definition env_no_list :: env where
  "env_no_list =
     example_env (\<lambda>n path. UpstreamResponse 200 (Inr (Obj [(''message'', Str ''no games'')])))
       store_accepts Map.empty"


section \<open>Properties\<close>

subsection \<open>Helper lemmas\<close>

lemma map_of_map_set: "map_of (map_set m k v) k = Some v"
  by (induction m) auto

lemma map_delete_keys: "k \<notin> fst ` set (map_delete m k)"
  by (auto simp: map_delete_def)

lemma bindE_Inr [simp]: "bindE (Inr v) f = f v"
  by (simp add: bindE_def)

lemma bindE_Inl [simp]: "bindE (Inl e) f = Inl e"
  by (simp add: bindE_def)

lemma getE_not_nullish [simp]: "\<not> nullish v \<Longrightarrow> getE v k = Inr (get v k)"
  by (simp add: getE_def)

lemma getE_nullish: "nullish v \<Longrightarrow> \<exists>e. getE v k = Inl e"
  by (simp add: getE_def)

lemma get_Cons: "get (Obj ((k', v) # r)) k = (if k' = k then v else get (Obj r) k)"
  by simp

lemma get_Nil: "get (Obj []) k = Undefined"
  by simp

lemma row_field_Inr: "row_field (Inr row) k = Some (get row k)"
  by (simp add: row_field_def)

text \<open>The rules that read one field of an object literal.\<close>

lemmas field_rules = row_field_Inr get_Cons get_Nil list.inject list.distinct char.inject if_False if_True simp_thms

lemma split_no_sep: "c \<notin> set s \<Longrightarrow> split c s = [s]"
  by (induction s) auto

lemma split_two: "c \<notin> set a \<Longrightarrow> c \<notin> set b \<Longrightarrow> split c (a @ c # b) = [a, b]"
  by (induction a) (auto simp: split_no_sep)

lemma digit10_not_special:
  "is_digit_in 10 c \<Longrightarrow> \<not> is_ws c \<and> c \<noteq> CHR ''-'' \<and> c \<noteq> CHR ''+'' \<and> c \<noteq> CHR '':''"
  by (auto simp: is_digit_in_def digit_val_def is_ws_def Let_def split: if_splits)

lemma takeWhile_all: "list_all P xs \<Longrightarrow> takeWhile P xs = xs"
  by (induction xs) auto

lemma dropWhile_all: "list_all P xs \<Longrightarrow> dropWhile P xs = []"
  by (induction xs) auto

lemma digits_value_Nil: "digits_value r [] = 0"
  by (simp add: digits_value_def)

lemma parseFloat_digits:
  assumes "ds \<noteq> []" and "list_all (is_digit_in 10) ds"
  shows "parseFloat ds = Num (of_nat (digits_value 10 ds))"
proof -
  obtain c cs where ds: "ds = c # cs" using assms(1) by (cases ds) auto
  with assms(2) have c: "is_digit_in 10 c" by simp
  have ws: "trimStart ds = ds" using c digit10_not_special [OF c] by (simp add: trimStart_def ds)
  have sg: "read_sign ds = (1, ds)" using digit10_not_special [OF c] by (simp add: ds)
  show ?thesis
    using assms
    by (simp add: parseFloat_def ws read_decimal_def sg takeWhile_all dropWhile_all
        read_exponent_def pow10_def digits_value_Nil)
qed

lemma digits_no_colon: "list_all (is_digit_in 10) ds \<Longrightarrow> CHR '':'' \<notin> set ds"
  using digit10_not_special by (induction ds) auto

lemma parseMinutes_mm_ss:
  assumes "mm \<noteq> []" "ss \<noteq> []" "list_all (is_digit_in 10) mm" "list_all (is_digit_in 10) ss"
  shows "parseMinutes (Str (mm @ '':'' @ ss))
         = Num (of_nat (digits_value 10 mm) + of_nat (digits_value 10 ss) / 60)"
  using assms
  by (simp add: parseMinutes_def split_two digits_no_colon parseFloat_digits js_add_def js_div_def)

lemma parseMinutes_not_string: "\<not> is_string v \<Longrightarrow> parseMinutes v = Num 0"
  by (simp add: parseMinutes_def)









lemma flat_minutes_decimal:
  "\<not> nullish p \<Longrightarrow> row_field (transformPlayerStats_flat p gi ti loc st) ''minutes_decimal''
     = Some (parseMinutes (js_or (get p ''minutes'') (get p ''timePlayed'')))"
  unfolding transformPlayerStats_flat_def by (simp only: field_rules)

lemma stats_minutes_decimal:
  "\<not> nullish e \<Longrightarrow> row_field (transformPlayerStats_stats e gi tc tn tt loc st) ''minutes_decimal''
     = Some (coalesce (get (js_or (get e ''stats'') (Obj [])) ''timePlayed'') (Num 0))"
  unfolding transformPlayerStats_stats_def Let_def by (simp only: field_rules)

lemma get_Num_is_Obj: "get v k = Num r \<Longrightarrow> truthy v \<and> \<not> nullish v"
  by (cases v) auto

subsection \<open>Season code\<close>

text \<open>
  C9.  The season-code resolver is a total function of its three arguments: it returns
  the override verbatim when one is present and non-empty, and otherwise the upper-cased
  competition code followed by the season year.  \<open>getSeasonCode\<close> passes the query's
  \<open>seasonCode\<close> as the override, with the defaults "E" and "2025".
\<close>

theorem buildSeasonCode_resolves:
  "buildSeasonCode code season ov =
     (if ov = None \<or> ov = Some [] then toUpperCase code @ season else the ov)
   \<and> getSeasonCode ps =
     (if ps ''seasonCode'' = None \<or> ps ''seasonCode'' = Some []
      then toUpperCase (param_or ps ''code'' ''E'') @ param_or ps ''season'' ''2025''
      else the (ps ''seasonCode''))"
  by (cases ov; cases "ps ''seasonCode''") (auto simp: buildSeasonCode_def getSeasonCode_def)

theorem buildSeasonCode_resolves_witness:
  "buildSeasonCode ''e'' ''2025'' None = ''E2025''
   \<and> buildSeasonCode ''j'' ''2025'' (Some ''JTA25'') = ''JTA25''
   \<and> getSeasonCode [''code'' \<mapsto> ''u'', ''season'' \<mapsto> ''2024''] = ''U2024''
   \<and> getSeasonCode [''code'' \<mapsto> ''j'', ''seasonCode'' \<mapsto> ''JTA25''] = ''JTA25''
   \<and> getSeasonCode Map.empty = ''E2025''"
  using buildSeasonCode_resolves [of "''e''" "''2025''" None "[''code'' \<mapsto> ''u'', ''season'' \<mapsto> ''2024'']"]
    buildSeasonCode_resolves [of "''j''" "''2025''" "Some ''JTA25''"
      "[''code'' \<mapsto> ''j'', ''seasonCode'' \<mapsto> ''JTA25'']"]
    buildSeasonCode_resolves [of "''j''" "''2025''" None Map.empty]
  by (simp add: toUpperCase_def upper_char_def param_or_def)

subsection \<open>The cache\<close>

text \<open>
  C10 (as amended).  For every key, value and time to live: a \<open>get\<close> at any time up to
  and including the recorded expiry (set time + ttl * 1000) returns the value that was
  set, so with a time to live that is not negative a \<open>get\<close> right after the \<open>set\<close>
  returns it; a \<open>get\<close> strictly after the expiry returns \<open>null\<close> and evicts the
  entry, so that the key is no longer among \<open>stats().keys\<close>.
\<close>

theorem cache_set_then_get:
  "(0 \<le> ttl \<longrightarrow> fst (cache_get (cache_set c now stamp k v ttl) now k) = v)
   \<and> (now' \<le> now + ttl * 1000 \<longrightarrow>
        cache_get (cache_set c now stamp k v ttl) now' k = (v, cache_set c now stamp k v ttl))
   \<and> (now + ttl * 1000 < now' \<longrightarrow>
        fst (cache_get (cache_set c now stamp k v ttl) now' k) = Null
        \<and> k \<notin> set (keys (stats (snd (cache_get (cache_set c now stamp k v ttl) now' k)))))"
  using map_delete_keys [of k "cache_set c now stamp k v ttl"]
  by (simp add: cache_get_def cache_set_def map_of_map_set stats_def)

theorem cache_set_then_get_witness:
  "fst (cache_get (cache_set [] 0 ''2026-01-01T00:00:00.000Z'' ''games:E2025'' (Str ''v'') 60)
          0 ''games:E2025'') = Str ''v''
   \<and> fst (cache_get (cache_set [] 0 ''2026-01-01T00:00:00.000Z'' ''games:E2025'' (Str ''v'') 60)
          60001 ''games:E2025'') = Null
   \<and> ''games:E2025'' \<notin> set (keys (stats (snd
          (cache_get (cache_set [] 0 ''2026-01-01T00:00:00.000Z'' ''games:E2025'' (Str ''v'') 60)
             60001 ''games:E2025''))))"
  using cache_set_then_get [of 60 "[]" 0 "''2026-01-01T00:00:00.000Z''" "''games:E2025''"
      "Str ''v''" 60001]
  by simp

text \<open>
  At the instant of the expiry itself (60 seconds after a \<open>set\<close> with a time to live of
  60) the test \<open>Date.now() > entry.expires\<close> is false: the value is still returned and
  the key is still listed.
\<close>

theorem cache_get_at_expiry_counterexample:
  "cache_get (cache_set [] 0 ''2026-01-01T00:00:00.000Z'' ''games:E2025'' (Str ''v'') 60)
      60000 ''games:E2025''
   = (Str ''v'', [(''games:E2025'',
        \<lparr>data = Str ''v'', expires = 60000, storedAt = ''2026-01-01T00:00:00.000Z''\<rparr>)])
   \<and> keys (stats (snd (cache_get
        (cache_set [] 0 ''2026-01-01T00:00:00.000Z'' ''games:E2025'' (Str ''v'') 60)
        60000 ''games:E2025''))) = [''games:E2025'']"
  by (simp add: cache_get_def cache_set_def stats_def)

subsection \<open>Minutes played\<close>

text \<open>
  C3 (as amended).  The two versions of the transform each read one upstream shape.  In
  the flat version (sync.js) the minutes are \<open>player.minutes || player.timePlayed\<close>:
  when that is a string "MM:SS" (two runs of digits), \<open>minutes_decimal\<close> is
  MM + SS / 60; when it is not a string (a number such as 25.5 included),
  \<open>minutes_decimal\<close> is 0.  In the stats version, \<open>minutes_decimal\<close> is
  \<open>stats.timePlayed\<close> as the upstream gives it: a number r yields r.
\<close>

theorem minutes_decimal_by_shape:
  "(\<not> nullish p \<and> js_or (get p ''minutes'') (get p ''timePlayed'') = Str (mm @ '':'' @ ss)
      \<and> mm \<noteq> [] \<and> ss \<noteq> [] \<and> list_all (is_digit_in 10) mm \<and> list_all (is_digit_in 10) ss
    \<longrightarrow> row_field (transformPlayerStats_flat p gi ti loc st) ''minutes_decimal''
          = Some (Num (of_nat (digits_value 10 mm) + of_nat (digits_value 10 ss) / 60)))
   \<and> (\<not> nullish p \<and> \<not> is_string (js_or (get p ''minutes'') (get p ''timePlayed''))
    \<longrightarrow> row_field (transformPlayerStats_flat p gi ti loc st) ''minutes_decimal'' = Some (Num 0))
   \<and> (\<not> nullish e \<and> get (get e ''stats'') ''timePlayed'' = Num r
    \<longrightarrow> row_field (transformPlayerStats_stats e gi tc tn tt loc st') ''minutes_decimal'' = Some (Num r))"
proof (intro conjI impI)
  assume a: "\<not> nullish p \<and> js_or (get p ''minutes'') (get p ''timePlayed'') = Str (mm @ '':'' @ ss)
      \<and> mm \<noteq> [] \<and> ss \<noteq> [] \<and> list_all (is_digit_in 10) mm \<and> list_all (is_digit_in 10) ss"
  then show "row_field (transformPlayerStats_flat p gi ti loc st) ''minutes_decimal''
          = Some (Num (of_nat (digits_value 10 mm) + of_nat (digits_value 10 ss) / 60))"
    using parseMinutes_mm_ss [of mm ss] by (simp add: flat_minutes_decimal)
next
  assume "\<not> nullish p \<and> \<not> is_string (js_or (get p ''minutes'') (get p ''timePlayed''))"
  then show "row_field (transformPlayerStats_flat p gi ti loc st) ''minutes_decimal'' = Some (Num 0)"
    by (simp add: flat_minutes_decimal parseMinutes_not_string)
next
  assume a: "\<not> nullish e \<and> get (get e ''stats'') ''timePlayed'' = Num r"
  then have "truthy (get e ''stats'')" using get_Num_is_Obj by blast
  with a show "row_field (transformPlayerStats_stats e gi tc tn tt loc st') ''minutes_decimal'' = Some (Num r)"
    by (simp add: stats_minutes_decimal js_or_def coalesce_def)
qed

theorem minutes_decimal_by_shape_witness:
  "row_field (transformPlayerStats_flat (Obj [(''personCode'', Str ''P1''), (''minutes'', Str ''25:30'')])
       (mkGameInfo (Num 1) ''E2025'' ''E'' (Num 1) Null) (Obj []) True ''2026-01-01T00:00:00.000Z'')
     ''minutes_decimal'' = Some (Num (51 / 2))
   \<and> row_field (transformPlayerStats_flat (Obj [(''personCode'', Str ''P1''), (''minutes'', Num 12)])
       (mkGameInfo (Num 1) ''E2025'' ''E'' (Num 1) Null) (Obj []) True ''2026-01-01T00:00:00.000Z'')
     ''minutes_decimal'' = Some (Num 0)
   \<and> row_field (transformPlayerStats_stats
       (Obj [(''player'', Obj [(''person'', Obj [(''code'', Str ''P1'')])]),
             (''stats'', Obj [(''timePlayed'', Num (51 / 2))])])
       (mkGameInfo (Num 1) ''E2025'' ''E'' (Num 1) Null) (Str ''MAD'') (Str ''Madrid'') (Str ''RMB'') True
       ''2026-01-01T00:00:00.000Z'')
     ''minutes_decimal'' = Some (Num (51 / 2))"
  using minutes_decimal_by_shape [of
      "Obj [(''personCode'', Str ''P1''), (''minutes'', Str ''25:30'')]" "''25''" "''30''"
      "mkGameInfo (Num 1) ''E2025'' ''E'' (Num 1) Null" "Obj []" True "''2026-01-01T00:00:00.000Z''"
      "Obj [(''player'', Obj [(''person'', Obj [(''code'', Str ''P1'')])]),
             (''stats'', Obj [(''timePlayed'', Num (51 / 2))])]" "51 / 2"
      "Str ''MAD''" "Str ''Madrid''" "Str ''RMB''" "''2026-01-01T00:00:00.000Z''"]
    minutes_decimal_by_shape [of
      "Obj [(''personCode'', Str ''P1''), (''minutes'', Num 12)]" "''25''" "''30''"
      "mkGameInfo (Num 1) ''E2025'' ''E'' (Num 1) Null" "Obj []" True "''2026-01-01T00:00:00.000Z''"]
  by (simp add: js_or_def is_digit_in_def digit_val_def digits_value_def)

text \<open>
  Decimal minutes given directly, 25.5 as a number, are not a string: the guard of
  \<open>parseMinutes\<close> returns 0 and the flat transform persists \<open>minutes_decimal = 0\<close>.
\<close>

theorem minutes_decimal_number_counterexample:
  "parseMinutes (Num (51 / 2)) = Num 0
   \<and> row_field (transformPlayerStats_flat (Obj [(''personCode'', Str ''P1''), (''minutes'', Num (51 / 2))])
       (mkGameInfo (Num 1) ''E2025'' ''E'' (Num 1) Null) (Obj []) True ''2026-01-01T00:00:00.000Z'')
     ''minutes_decimal'' = Some (Num 0)"
  by (simp add: flat_minutes_decimal parseMinutes_def js_or_def)

subsection \<open>Combined field goals\<close>

lemma js_add_not_nullish: "\<not> nullish (js_add a b)"
  by (simp add: js_add_def split: jsval.splits prod.splits)

lemma flat_field_goals:
  "\<not> nullish p \<Longrightarrow>
   row_field (transformPlayerStats_flat p gi ti loc st) ''field_goals_made''
     = Some (js_add (get p ''fieldGoalsMade2'') (get p ''fieldGoalsMade3''))
   \<and> row_field (transformPlayerStats_flat p gi ti loc st) ''field_goals_attempted''
     = Some (js_add (get p ''fieldGoalsAttempted2'') (get p ''fieldGoalsAttempted3''))"
  unfolding transformPlayerStats_flat_def
  by (simp only: field_rules) (simp add: coalesce_def js_add_not_nullish)

lemma flat_split_fields:
  "\<not> nullish p \<Longrightarrow>
   row_field (transformPlayerStats_flat p gi ti loc st) ''two_points_made''
     = Some (coalesce (coalesce (get p ''fieldGoalsMade2'') (get p ''twoPointsMade'')) (Num 0))
   \<and> row_field (transformPlayerStats_flat p gi ti loc st) ''three_points_made''
     = Some (coalesce (coalesce (get p ''fieldGoalsMade3'') (get p ''threePointsMade'')) (Num 0))
   \<and> row_field (transformPlayerStats_flat p gi ti loc st) ''two_points_attempted''
     = Some (coalesce (coalesce (get p ''fieldGoalsAttempted2'') (get p ''twoPointsAttempted'')) (Num 0))
   \<and> row_field (transformPlayerStats_flat p gi ti loc st) ''three_points_attempted''
     = Some (coalesce (coalesce (get p ''fieldGoalsAttempted3'') (get p ''threePointsAttempted'')) (Num 0))"
  unfolding transformPlayerStats_flat_def by (simp only: field_rules)

text \<open>In the stats version the combined fields are the sums of the split fields of the
  same row, whatever the upstream record holds.\<close>

lemma stats_field_goals_sum:
  "\<not> nullish e \<Longrightarrow>
   row_field (transformPlayerStats_stats e gi tc tn tt loc st) ''field_goals_made''
     = Some (js_add (the (row_field (transformPlayerStats_stats e gi tc tn tt loc st) ''two_points_made''))
                    (the (row_field (transformPlayerStats_stats e gi tc tn tt loc st) ''three_points_made'')))
   \<and> row_field (transformPlayerStats_stats e gi tc tn tt loc st) ''field_goals_attempted''
     = Some (js_add (the (row_field (transformPlayerStats_stats e gi tc tn tt loc st) ''two_points_attempted''))
                    (the (row_field (transformPlayerStats_stats e gi tc tn tt loc st) ''three_points_attempted'')))"
  unfolding transformPlayerStats_stats_def Let_def by (simp only: field_rules option.sel)

text \<open>
  C4 (the code departs from the claim).  In sync.js the combined fields are
  \<open>player.fieldGoalsMade2 + player.fieldGoalsMade3 ?? player.fieldGoalsMade ?? 0\<close>: the sum
  binds tighter than \<open>??\<close> and is never nullish, so the fallbacks never apply.  For a
  record that gives its splits as \<open>twoPointsMade\<close>/\<open>threePointsMade\<close> the split fields
  of the row are 2 and 1 (5 and 4 attempted) while the combined fields are
  \<open>undefined + undefined = NaN\<close>.
\<close>

theorem field_goals_flat_without_splits:
  "row_field (transformPlayerStats_flat
       (Obj [(''personCode'', Str ''P1''), (''twoPointsMade'', Num 2), (''threePointsMade'', Num 1),
             (''twoPointsAttempted'', Num 5), (''threePointsAttempted'', Num 4)])
       (mkGameInfo (Num 1) ''E2025'' ''E'' (Num 1) Null) (Obj []) True ''2026-01-01T00:00:00.000Z'')
     ''two_points_made'' = Some (Num 2)
   \<and> row_field (transformPlayerStats_flat
       (Obj [(''personCode'', Str ''P1''), (''twoPointsMade'', Num 2), (''threePointsMade'', Num 1),
             (''twoPointsAttempted'', Num 5), (''threePointsAttempted'', Num 4)])
       (mkGameInfo (Num 1) ''E2025'' ''E'' (Num 1) Null) (Obj []) True ''2026-01-01T00:00:00.000Z'')
     ''three_points_made'' = Some (Num 1)
   \<and> row_field (transformPlayerStats_flat
       (Obj [(''personCode'', Str ''P1''), (''twoPointsMade'', Num 2), (''threePointsMade'', Num 1),
             (''twoPointsAttempted'', Num 5), (''threePointsAttempted'', Num 4)])
       (mkGameInfo (Num 1) ''E2025'' ''E'' (Num 1) Null) (Obj []) True ''2026-01-01T00:00:00.000Z'')
     ''field_goals_made'' = Some NaN
   \<and> row_field (transformPlayerStats_flat
       (Obj [(''personCode'', Str ''P1''), (''twoPointsMade'', Num 2), (''threePointsMade'', Num 1),
             (''twoPointsAttempted'', Num 5), (''threePointsAttempted'', Num 4)])
       (mkGameInfo (Num 1) ''E2025'' ''E'' (Num 1) Null) (Obj []) True ''2026-01-01T00:00:00.000Z'')
     ''two_points_attempted'' = Some (Num 5)
   \<and> row_field (transformPlayerStats_flat
       (Obj [(''personCode'', Str ''P1''), (''twoPointsMade'', Num 2), (''threePointsMade'', Num 1),
             (''twoPointsAttempted'', Num 5), (''threePointsAttempted'', Num 4)])
       (mkGameInfo (Num 1) ''E2025'' ''E'' (Num 1) Null) (Obj []) True ''2026-01-01T00:00:00.000Z'')
     ''three_points_attempted'' = Some (Num 4)
   \<and> row_field (transformPlayerStats_flat
       (Obj [(''personCode'', Str ''P1''), (''twoPointsMade'', Num 2), (''threePointsMade'', Num 1),
             (''twoPointsAttempted'', Num 5), (''threePointsAttempted'', Num 4)])
       (mkGameInfo (Num 1) ''E2025'' ''E'' (Num 1) Null) (Obj []) True ''2026-01-01T00:00:00.000Z'')
     ''field_goals_attempted'' = Some NaN"
  by (simp add: flat_field_goals flat_split_fields coalesce_def js_add_def)

subsection \<open>Which entries become rows\<close>





lemma iterate_Inr_cases: "iterate v = Inr xs \<Longrightarrow> (v = Arr xs) \<or> (\<exists>s. v = Str s \<and> xs = map (\<lambda>c. Str [c]) s)"
  by (cases v) auto










subsection \<open>The error lists of the response\<close>

lemma body_jsonResponse: "body (jsonResponse d st) = d" and status_jsonResponse: "status (jsonResponse d st) = st"
  by (simp_all add: jsonResponse_def)

lemma get_non_object [simp]: "get (Str s) k = Undefined"
  by simp

lemma respond_flat_errors:
  "get (get (body (respond_flat env r)) ''boxscores'') ''errors''
     = (if o_doBoxscores r then errorsOrUndefined (bs_errors (o_boxscoreStats r)) else Undefined)
   \<and> get (get (body (respond_flat env r)) ''games'') ''errors''
     = (case up_errors (o_gamesResult r) of None \<Rightarrow> Undefined | Some errs \<Rightarrow> errorsOrUndefined errs)"
  by (cases "o_doBoxscores r") (simp_all add: respond_flat_def jsonResponse_def)

lemma respond_stats_errors:
  "get (get (body (respond_stats env r)) ''boxscores'') ''errors''
     = (if o_doBoxscores r then cappedErrors (bs_errors (o_boxscoreStats r)) else Undefined)
   \<and> get (body (respond_stats env r)) ''errors''
     = (case up_errors (o_gamesResult r) of None \<Rightarrow> Undefined | Some errs \<Rightarrow> cappedErrors errs)"
  by (cases "o_doBoxscores r") (simp_all add: respond_stats_def jsonResponse_def)

lemma sync_done: "\<not> preflight env \<Longrightarrow> run v env = Inr (Inr r) \<Longrightarrow> sync v env = respond v env r"
  by (simp add: sync_def handleCors_def)

text \<open>
  C7 (as amended).  In the stats version of the handler every list of error strings in
  the response (\<open>boxscores.errors\<close> and the top-level \<open>errors\<close> of the games upsert) is
  the first 5 entries of what the run recorded, and absent when nothing was recorded.
  In sync.js the lists (\<open>boxscores.errors\<close>, \<open>games.errors\<close>) are reported in full.
\<close>

theorem error_lists_capped_in_stats_version:
  "(\<not> preflight env \<and> run Stats env = Inr (Inr r) \<longrightarrow>
      get (get (body (sync Stats env)) ''boxscores'') ''errors''
        = (if o_doBoxscores r \<and> bs_errors (o_boxscoreStats r) \<noteq> []
           then Arr (map Str (take 5 (bs_errors (o_boxscoreStats r)))) else Undefined)
      \<and> get (body (sync Stats env)) ''errors''
        = (case up_errors (o_gamesResult r) of
             None \<Rightarrow> Undefined
           | Some errs \<Rightarrow> if errs \<noteq> [] then Arr (map Str (take 5 errs)) else Undefined))
   \<and> (\<not> preflight env \<and> run Flat env = Inr (Inr r') \<longrightarrow>
      get (get (body (sync Flat env)) ''boxscores'') ''errors''
        = (if o_doBoxscores r' \<and> bs_errors (o_boxscoreStats r') \<noteq> []
           then Arr (map Str (bs_errors (o_boxscoreStats r'))) else Undefined)
      \<and> get (get (body (sync Flat env)) ''games'') ''errors''
        = (case up_errors (o_gamesResult r') of
             None \<Rightarrow> Undefined
           | Some errs \<Rightarrow> if errs \<noteq> [] then Arr (map Str errs) else Undefined))"
  using respond_stats_errors [of env r] respond_flat_errors [of env r']
  by (auto simp: sync_done respond_def cappedErrors_def errorsOrUndefined_def split: option.splits)

subsection \<open>The loops\<close>

lemma foldE_append: "foldE f a (xs @ ys) = bindE (foldE f a xs) (\<lambda>a'. foldE f a' ys)"
  by (induction xs arbitrary: a) (auto simp: bindE_def split: sum.splits)

lemma zip_upt_drop_split:
  assumes "i < length xs"
  shows "zip [i ..< length xs] (drop i xs)
         = zip [i ..< i + length (take 5 (drop i xs))] (take 5 (drop i xs))
           @ zip [i + 5 ..< length xs] (drop (i + 5) xs)"
proof -
  let ?k = "length (take 5 (drop i xs))"
  have k: "?k = min 5 (length xs - i)" by simp
  have up: "[i ..< length xs] = [i ..< i + ?k] @ [i + ?k ..< length xs]"
    using assms by (metis k le_add1 le_add_diff_inverse less_or_eq_imp_le min.cobounded2 nat_add_left_cancel_le upt_add_eq_append)
  have dr: "drop i xs = take 5 (drop i xs) @ drop (i + 5) xs"
    by (metis add.commute append_take_drop_id drop_drop)
  have "zip [i ..< length xs] (drop i xs)
        = zip ([i ..< i + ?k] @ [i + ?k ..< length xs]) (take 5 (drop i xs) @ drop (i + 5) xs)"
    using up dr by metis
  also have "\<dots> = zip [i ..< i + ?k] (take 5 (drop i xs)) @ zip [i + ?k ..< length xs] (drop (i + 5) xs)"
    by (rule zip_append) simp
  also have "zip [i + ?k ..< length xs] (drop (i + 5) xs) = zip [i + 5 ..< length xs] (drop (i + 5) xs)"
  proof (cases "5 \<le> length xs - i")
    case True
    then show ?thesis by (simp add: min_def)
  next
    case False
    then show ?thesis by simp
  qed
  finally show ?thesis .
qed

lemma fetchBoxscores_eq:
  "fetchBoxscores v env code sc elig i acc
   = foldE (absorbResult v env code sc) acc
       (map (fetchOne v env code sc) (zip [i ..< length elig] (drop i elig)))"
proof (induction v env code sc elig i acc rule: fetchBoxscores.induct)
  case (1 v env code sc elig i acc)
  show ?case
  proof (cases "i < length elig")
    case False
    then show ?thesis by (simp add: fetchBoxscores.simps)
  next
    case True
    have "fetchBoxscores v env code sc elig i acc
          = bindE (foldE (absorbResult v env code sc) acc
                     (map (fetchOne v env code sc)
                        (zip [i ..< i + length (take 5 (drop i elig))] (take 5 (drop i elig)))))
              (\<lambda>acc'. fetchBoxscores v env code sc elig (i + 5) acc')"
      using True by (subst fetchBoxscores.simps) (simp add: Let_def)
    also have "\<dots> = bindE (foldE (absorbResult v env code sc) acc
                     (map (fetchOne v env code sc)
                        (zip [i ..< i + length (take 5 (drop i elig))] (take 5 (drop i elig)))))
              (\<lambda>acc'. foldE (absorbResult v env code sc) acc'
                 (map (fetchOne v env code sc) (zip [i + 5 ..< length elig] (drop (i + 5) elig))))"
      using 1 [OF True refl refl] by simp
    also have "\<dots> = foldE (absorbResult v env code sc) acc
       (map (fetchOne v env code sc) (zip [i ..< length elig] (drop i elig)))"
      by (simp only: zip_upt_drop_split [OF True] map_append foldE_append)
    finally show ?thesis .
  qed
qed

lemma upsertLoop_returns:
  "(\<And>url key i b. \<exists>st t. store env url key i b = StoreResponse st t) \<Longrightarrow>
   \<exists>res. upsertLoop env url table key rows i tot errs = Inr res"
proof (induction env url table key rows i tot errs rule: upsertLoop.induct)
  case (1 env url table key rows i tot errs)
  show ?case
  proof (cases "i < length rows")
    case False
    then show ?thesis by (simp add: upsertLoop.simps)
  next
    case True
    obtain st t where st: "store env url key i (take 50 (drop i rows)) = StoreResponse st t"
      using "1.prems" by blast
    show ?thesis
    proof (cases "res_ok st")
      case ok: True
      have "\<exists>res. upsertLoop env url table key rows (i + 50) (tot + length (take 50 (drop i rows))) errs = Inr res"
        using "1.IH"(1) [OF True refl st ok] "1.prems" by blast
      then show ?thesis using True st ok by (subst upsertLoop.simps) (simp add: Let_def)
    next
      case no: False
      have "\<exists>res. upsertLoop env url table key rows (i + 50) tot
                (errs @ [table @ '' batch '' @ show_nat (i div 50 + 1) @ '': '' @ show_nat st
                               @ '' '' @ [CHR 0xE2, CHR 0x80, CHR 0x94] @ '' '' @ t]) = Inr res"
        using "1.IH"(2) [OF True refl st no] "1.prems" by blast
      then show ?thesis using True st no by (subst upsertLoop.simps) (simp add: Let_def)
    qed
  qed
qed

subsection \<open>The boxscore fan-out\<close>

lemma isEligible_not_nullish: "\<not> nullish g \<Longrightarrow> isEligible g = Inr (eligibleGame g)"
  by (simp add: isEligible_def)

lemma filterE_pure:
  "list_all (\<lambda>x. p x = Inr (q x)) xs \<Longrightarrow> filterE p xs = Inr (filter q xs)"
  by (induction xs) auto

lemma filterE_isEligible:
  "list_all (\<lambda>g. \<not> nullish g) gs \<Longrightarrow> filterE isEligible gs = Inr (filter eligibleGame gs)"
  by (rule filterE_pure) (simp add: list_all_iff isEligible_not_nullish)

lemma benign_outcome:
  assumes "benignFetch v env code sc ng"
  shows "case gameOutcome v env code sc ng of
           Inl e \<Rightarrow> message e \<noteq> []
         | Inr bs \<Rightarrow> (case playersOf v env code sc (snd ng) bs of Inl e \<Rightarrow> False | Inr rows \<Rightarrow> True)"
  using assms
  by (auto simp: benignFetch_def gameOutcome_def euroFetch_def
      split: upstream_result.splits sum.splits if_splits)

lemma absorb_benign:
  assumes "benignFetch v env code sc ng"
  shows "absorbResult v env code sc (st, rows) (fetchOne v env code sc ng)
         = Inr (st\<lparr>bs_fetched := bs_fetched st + (if fetchFailed v env code sc ng then 0 else 1),
                    bs_errors := bs_errors st
                       @ (if fetchFailed v env code sc ng then [errorEntry v env code sc ng] else [])\<rparr>,
                rows @ rowsOfGame v env code sc ng)"
proof -
  obtain n game where ng: "ng = (n, game)" by (cases ng)
  from assms have nn: "\<not> nullish game" by (simp add: benignFetch_def ng)
  show ?thesis
  proof (cases "gameOutcome v env code sc ng")
    case (Inl e)
    with benign_outcome [OF assms] have msg: "message e \<noteq> []" by simp
    have f: "fetchOne v env code sc (n, game)
             = Fulfilled (Obj [(''gameCode'', get game ''gameCode''), (''error'', Str (message e))])"
      using Inl nn by (simp add: fetchOne_def ng gameOutcome_def)
    show ?thesis
      using Inl msg by (simp add: f absorbResult_def fetchFailed_def errorEntry_def rowsOfGame_def ng)
  next
    case (Inr bs)
    with benign_outcome [OF assms] obtain prows where prows: "playersOf v env code sc game bs = Inr prows"
      by (auto simp: ng split: sum.splits)
    have f: "fetchOne v env code sc (n, game)
             = Fulfilled (Obj [(''gameCode'', get game ''gameCode''), (''boxscore'', bs), (''game'', game)])"
      using Inr nn by (simp add: fetchOne_def ng gameOutcome_def)
    show ?thesis
      using Inr prows nn
      by (simp add: f absorbResult_def fetchFailed_def errorEntry_def rowsOfGame_def ng playersOf_def)
  qed
qed

lemma foldE_absorb_benign:
  "list_all (benignFetch v env code sc) ngs \<Longrightarrow>
   foldE (absorbResult v env code sc) (st, rows) (map (fetchOne v env code sc) ngs)
   = Inr (st\<lparr>bs_fetched := bs_fetched st + length (filter (\<lambda>ng. \<not> fetchFailed v env code sc ng) ngs),
              bs_errors := bs_errors st
                 @ map (errorEntry v env code sc) (filter (fetchFailed v env code sc) ngs)\<rparr>,
          rows @ concat (map (rowsOfGame v env code sc) ngs))"
proof (induction ngs arbitrary: st rows)
  case Nil
  then show ?case by simp
next
  case (Cons ng ngs)
  then have b: "benignFetch v env code sc ng" and rest: "list_all (benignFetch v env code sc) ngs"
    by simp_all
  show ?case
    by (simp add: absorb_benign [OF b] Cons.IH [OF rest])
qed

lemma fetchBoxscores_benign:
  assumes "list_all (benignFetch v env code sc) (numbered elig)"
  shows "fetchBoxscores v env code sc elig 0 (\<lparr>bs_fetched = 0, bs_players = 0, bs_errors = []\<rparr>, [])
         = Inr (\<lparr>bs_fetched = length (filter (\<lambda>ng. \<not> fetchFailed v env code sc ng) (numbered elig)),
                 bs_players = 0,
                 bs_errors = map (errorEntry v env code sc) (filter (fetchFailed v env code sc) (numbered elig))\<rparr>,
                concat (map (rowsOfGame v env code sc) (numbered elig)))"
  using foldE_absorb_benign [OF assms [unfolded numbered_def]]
  by (simp add: fetchBoxscores_eq numbered_def)

lemma upsertLoop_result:
  "(\<And>url key i b. \<exists>st t. store env url key i b = StoreResponse st t) \<Longrightarrow>
   \<exists>tot' new. upsertLoop env url table key rows i tot errs = Inr (tot', errs @ new)
      \<and> list_all (\<lambda>e. take (length table + 7) e = table @ '' batch '') new"
proof (induction env url table key rows i tot errs rule: upsertLoop.induct)
  case (1 env url table key rows i tot errs)
  show ?case
  proof (cases "i < length rows")
    case False
    then have "upsertLoop env url table key rows i tot errs = Inr (tot, errs @ [])"
      by (simp add: upsertLoop.simps)
    moreover have "list_all (\<lambda>e. take (length table + 7) e = table @ '' batch '') []" by simp
    ultimately show ?thesis by blast
  next
    case True
    obtain st t where st: "store env url key i (take 50 (drop i rows)) = StoreResponse st t"
      using "1.prems" by blast
    show ?thesis
    proof (cases "res_ok st")
      case ok: True
      obtain tot' new where r: "upsertLoop env url table key rows (i + 50) (tot + length (take 50 (drop i rows))) errs
          = Inr (tot', errs @ new)" "list_all (\<lambda>e. take (length table + 7) e = table @ '' batch '') new"
        using "1.IH"(1) [OF True refl st ok] "1.prems" by blast
      have "upsertLoop env url table key rows i tot errs = Inr (tot', errs @ new)"
        using True st ok r(1) by (subst upsertLoop.simps) (simp add: Let_def)
      then show ?thesis using r(2) by blast
    next
      case no: False
      let ?e = "table @ '' batch '' @ show_nat (i div 50 + 1) @ '': '' @ show_nat st
                               @ '' '' @ [CHR 0xE2, CHR 0x80, CHR 0x94] @ '' '' @ t"
      obtain tot' new where r: "upsertLoop env url table key rows (i + 50) tot (errs @ [?e])
          = Inr (tot', (errs @ [?e]) @ new)" "list_all (\<lambda>e. take (length table + 7) e = table @ '' batch '') new"
        using "1.IH"(2) [OF True refl st no] "1.prems" by blast
      have "upsertLoop env url table key rows i tot errs = Inr (tot', errs @ (?e # new))"
        using True st no r(1) by (subst upsertLoop.simps) (simp add: Let_def)
      moreover have "list_all (\<lambda>e. take (length table + 7) e = table @ '' batch '') (?e # new)"
        using r(2) by simp
      ultimately show ?thesis by blast
    qed
  qed
qed

lemma supabaseUpsert_returns:
  assumes "\<And>url key i b. \<exists>st t. store env url key i b = StoreResponse st t"
  shows "\<exists>ps. supabaseUpsert v env table rows key oc = Inr ps
           \<and> (rows \<noteq> [] \<longrightarrow> (\<exists>errs. up_errors ps = Some errs
                  \<and> list_all (\<lambda>e. take (length table + 7) e = table @ '' batch '') errs))"
proof (cases "rows = []")
  case True
  then show ?thesis
    by (cases v) (simp_all add: supabaseUpsert_def supabaseUpsert_flat_def supabaseUpsert_stats_def)
next
  case False
  show ?thesis
  proof (cases v)
    case Flat
    obtain tot' new where "upsertLoop env (SUPABASE_URL @ ''/rest/v1/'' @ table) table key rows 0 0 []
        = Inr (tot', [] @ new)" "list_all (\<lambda>e. take (length table + 7) e = table @ '' batch '') new"
      using upsertLoop_result [OF assms] by blast
    then show ?thesis using False Flat
      by (simp add: supabaseUpsert_def supabaseUpsert_flat_def)
  next
    case Stats
    obtain tot' new where "upsertLoop env
        (SUPABASE_URL @ ''/rest/v1/'' @ table @ (if oc \<noteq> [] then ''?on_conflict='' @ oc else []))
        table key rows 0 0 [] = Inr (tot', [] @ new)"
        "list_all (\<lambda>e. take (length table + 7) e = table @ '' batch '') new"
      using upsertLoop_result [OF assms] by blast
    then show ?thesis using False Stats
      by (simp add: supabaseUpsert_def supabaseUpsert_stats_def Let_def)
  qed
qed

lemma upsertPlayerStats_returns:
  assumes "\<And>url key i b. \<exists>st t. store env url key i b = StoreResponse st t"
  shows "\<exists>p batchErrs. upsertPlayerStats v env key (st, rows)
            = Inr (st\<lparr>bs_players := p, bs_errors := bs_errors st @ batchErrs\<rparr>)
          \<and> list_all (\<lambda>e. take 19 e = ''player_stats batch '') batchErrs"
proof (cases "rows = []")
  case True
  have "st = st\<lparr>bs_players := bs_players st, bs_errors := bs_errors st @ []\<rparr>" by simp
  then have "upsertPlayerStats v env key (st, rows)
      = Inr (st\<lparr>bs_players := bs_players st, bs_errors := bs_errors st @ []\<rparr>)"
    using True by (simp add: upsertPlayerStats_def)
  moreover have "list_all (\<lambda>e. take 19 e = ''player_stats batch '') []" by simp
  ultimately show ?thesis by blast
next
  case False
  obtain ps errs where ps: "supabaseUpsert v env ''player_stats'' rows key
        ''season_code,game_code,person_code'' = Inr ps" "up_errors ps = Some errs"
      "list_all (\<lambda>e. take (length ''player_stats'' + 7) e = ''player_stats'' @ '' batch '') errs"
    using supabaseUpsert_returns [OF assms, of v "''player_stats''" rows key] False by blast
  have "upsertPlayerStats v env key (st, rows)
        = Inr (st\<lparr>bs_players := up_count ps, bs_errors := bs_errors st @ errs\<rparr>)"
    using False ps(1,2) by (simp add: upsertPlayerStats_def)
  moreover have "list_all (\<lambda>e. take 19 e = ''player_stats batch '') errs"
    using ps(3) by simp
  ultimately show ?thesis by blast
qed

lemma boxscoreStage_benign:
  assumes "list_all (\<lambda>g. \<not> nullish g) games"
    and "list_all (benignFetch v env code sc) (numbered (filter eligibleGame games))"
  shows "boxscoreStage v env code sc key games
         = upsertPlayerStats v env key
             (\<lparr>bs_fetched = length (filter (\<lambda>ng. \<not> fetchFailed v env code sc ng)
                                      (numbered (filter eligibleGame games))),
               bs_players = 0,
               bs_errors = map (errorEntry v env code sc)
                             (filter (fetchFailed v env code sc) (numbered (filter eligibleGame games)))\<rparr>,
              concat (map (rowsOfGame v env code sc) (numbered (filter eligibleGame games))))"
  by (simp add: boxscoreStage_def filterE_isEligible [OF assms(1)] fetchBoxscores_benign [OF assms(2)])

subsection \<open>The status of the response\<close>

lemma applyGamesFilter_kept:
  "list_all (\<lambda>g. \<not> nullish g) games \<Longrightarrow> applyGamesFilter f games = Inr (keptGames f games)"
proof (cases f)
  case None
  then show ?thesis by (simp add: applyGamesFilter_def keptGames_def)
next
  case (Some s)
  assume nn: "list_all (\<lambda>g. \<not> nullish g) games"
  show ?thesis
  proof (cases "s = []")
    case True
    then show ?thesis using Some by (simp add: applyGamesFilter_def keptGames_def)
  next
    case False
    have "filterE (\<lambda>g. bindE (getE g ''gameCode'') (\<lambda>c. Inr (c \<in> set (filterSet s)))) games
          = Inr (filter (\<lambda>g. get g ''gameCode'' \<in> set (filterSet s)) games)"
      by (rule filterE_pure) (use nn in \<open>simp add: list_all_iff\<close>)
    then show ?thesis using Some False by (simp add: applyGamesFilter_def keptGames_def)
  qed
qed

lemma keptGames_not_nullish:
  "list_all (\<lambda>g. \<not> nullish g) games \<Longrightarrow> list_all (\<lambda>g. \<not> nullish g) (keptGames f games)"
  by (auto simp: keptGames_def list_all_iff split: option.splits)

lemma transformGame_returns: "\<not> nullish g \<Longrightarrow> \<exists>row. transformGame st sc cn g = Inr row"
  unfolding transformGame_def by (simp only: if_False sum.inject simp_thms)

lemma mapE_transformGame:
  "list_all (\<lambda>g. \<not> nullish g) games \<Longrightarrow> \<exists>rows. mapE (transformGame st sc cn) games = Inr rows"
proof (induction games)
  case Nil
  then show ?case by simp
next
  case (Cons g gs)
  then obtain row rows where "transformGame st sc cn g = Inr row" "mapE (transformGame st sc cn) gs = Inr rows"
    using transformGame_returns [of g st sc cn] by auto
  then show ?case by simp
qed

lemma getSupabaseKey_present: "service_key env = Some k \<Longrightarrow> k \<noteq> [] \<Longrightarrow> getSupabaseKey env = Inr k"
  by (simp add: getSupabaseKey_def)

lemma getSupabaseKey_absent:
  "service_key env = None \<or> service_key env = Some [] \<Longrightarrow>
   getSupabaseKey env = Inl (Error (''SUPABASE_SERVICE_KEY env var not set. Add it in Netlify ''
                 @ [CHR 0xE2, CHR 0x86, CHR 0x92] @ '' Site config ''
                 @ [CHR 0xE2, CHR 0x86, CHR 0x92] @ '' Environment variables.''))"
  by (auto simp: getSupabaseKey_def)

lemma stage1_list:
  assumes "gd = Arr games \<or> get gd ''data'' = Arr games"
  shows "(if is_array gd then Inr gd else bindE (getE gd ''data'') (\<lambda>d. Inr (js_or d gd))) = Inr (Arr games)"
proof (cases "gd = Arr games")
  case True
  then show ?thesis by simp
next
  case False
  with assms have d: "get gd ''data'' = Arr games" by simp
  then have "\<not> nullish gd" "\<not> is_array gd" by (cases gd; simp)+
  then show ?thesis using d by (simp add: js_or_def)
qed

lemma run_completes:
  assumes key: "service_key env = Some k" "k \<noteq> []"
    and fetch: "euroFetch env 0 (gamesPath (param_or (query env) ''code'' ''E'') (getSeasonCode (query env))) = Inr gd"
    and shape: "gd = Arr games \<or> get gd ''data'' = Arr games"
    and nn: "list_all (\<lambda>g. \<not> nullish g) games"
    and st: "\<And>url key i b. \<exists>st t. store env url key i b = StoreResponse st t"
    and box: "query env ''skipBoxscores'' = Some ''true'' \<or> query env ''skipBoxscores'' = Some ''1''
        \<or> list_all (benignFetch v env (param_or (query env) ''code'' ''E'') (getSeasonCode (query env)))
             (numbered (filter eligibleGame (keptGames (query env ''games'') games)))"
  shows "\<exists>r. run v env = Inr (Inr r) \<and> o_gamesList r = keptGames (query env ''games'') games"
proof -
  let ?code = "param_or (query env) ''code'' ''E''"
  let ?sc = "getSeasonCode (query env)"
  let ?kept = "keptGames (query env ''games'') games"
  have knn: "list_all (\<lambda>g. \<not> nullish g) ?kept" using nn by (rule keptGames_not_nullish)
  obtain rows where rows: "mapE (transformGame (now_iso env) ?sc (toUpperCase ?code)) ?kept = Inr rows"
    using mapE_transformGame [OF knn] by blast
  obtain gr where gr: "supabaseUpsert v env ''live_games'' rows k ''season_code,game_code'' = Inr gr"
    using supabaseUpsert_returns [OF st] by blast
  have "\<exists>bs. (if query env ''skipBoxscores'' \<noteq> Some ''true'' \<and> query env ''skipBoxscores'' \<noteq> Some ''1''
              then boxscoreStage v env ?code ?sc k ?kept
              else Inr \<lparr>bs_fetched = 0, bs_players = 0, bs_errors = []\<rparr>) = Inr bs"
  proof (cases "query env ''skipBoxscores'' \<noteq> Some ''true'' \<and> query env ''skipBoxscores'' \<noteq> Some ''1''")
    case True
    with box have b: "list_all (benignFetch v env ?code ?sc) (numbered (filter eligibleGame ?kept))"
      by blast
    obtain p be where "upsertPlayerStats v env k
        (\<lparr>bs_fetched = length (filter (\<lambda>ng. \<not> fetchFailed v env ?code ?sc ng) (numbered (filter eligibleGame ?kept))),
          bs_players = 0,
          bs_errors = map (errorEntry v env ?code ?sc)
                        (filter (fetchFailed v env ?code ?sc) (numbered (filter eligibleGame ?kept)))\<rparr>,
         concat (map (rowsOfGame v env ?code ?sc) (numbered (filter eligibleGame ?kept))))
       = Inr (\<lparr>bs_fetched = length (filter (\<lambda>ng. \<not> fetchFailed v env ?code ?sc ng) (numbered (filter eligibleGame ?kept))),
          bs_players = 0,
          bs_errors = map (errorEntry v env ?code ?sc)
                        (filter (fetchFailed v env ?code ?sc) (numbered (filter eligibleGame ?kept)))\<rparr>
              \<lparr>bs_players := p, bs_errors := bs_errors \<lparr>bs_fetched = length (filter (\<lambda>ng. \<not> fetchFailed v env ?code ?sc ng) (numbered (filter eligibleGame ?kept))),
          bs_players = 0,
          bs_errors = map (errorEntry v env ?code ?sc)
                        (filter (fetchFailed v env ?code ?sc) (numbered (filter eligibleGame ?kept)))\<rparr> @ be\<rparr>)"
      using upsertPlayerStats_returns [OF st] by blast
    then show ?thesis using True by (simp add: boxscoreStage_benign [OF knn b])
  next
    case False
    then show ?thesis by auto
  qed
  then obtain bs where bs: "(if query env ''skipBoxscores'' \<noteq> Some ''true'' \<and> query env ''skipBoxscores'' \<noteq> Some ''1''
              then boxscoreStage v env ?code ?sc k ?kept
              else Inr \<lparr>bs_fetched = 0, bs_players = 0, bs_errors = []\<rparr>) = Inr bs" by blast
  show ?thesis
    unfolding run_def Let_def
    by (simp add: getSupabaseKey_present [OF key] fetch stage1_list [OF shape]
        applyGamesFilter_kept [OF nn] rows gr bs)
qed

lemma sync_preflight:
  "preflight env \<Longrightarrow> sync v env = \<lparr>status = 204, headers = corsHeaders, body = Null\<rparr>"
  by (simp add: sync_def handleCors_def)

lemma sync_thrown:
  "\<not> preflight env \<Longrightarrow> run v env = Inl e \<Longrightarrow>
   sync v env = errorResponse env (''Sync failed: '' @ message e) 500"
  by (simp add: sync_def handleCors_def)

lemma sync_early: "\<not> preflight env \<Longrightarrow> run v env = Inr (Inl early) \<Longrightarrow> sync v env = early"
  by (simp add: sync_def handleCors_def)

lemma errorResponse_fields:
  "status (errorResponse env msg st) = st
   \<and> get (body (errorResponse env msg st)) ''success'' = Undefined
   \<and> get (body (errorResponse env msg st)) ''error'' = Str msg"
  by (simp add: errorResponse_def jsonResponse_def)

lemma respond_fields:
  "status (respond v env r) = 200 \<and> get (body (respond v env r)) ''success'' = Bool True"
  by (cases v) (simp_all add: respond_def respond_flat_def respond_stats_def jsonResponse_def)

lemma run_no_key:
  "service_key env = None \<or> service_key env = Some [] \<Longrightarrow>
   run v env = Inl (Error (''SUPABASE_SERVICE_KEY env var not set. Add it in Netlify ''
                 @ [CHR 0xE2, CHR 0x86, CHR 0x92] @ '' Site config ''
                 @ [CHR 0xE2, CHR 0x86, CHR 0x92] @ '' Environment variables.''))"
  unfolding run_def Let_def by (simp add: getSupabaseKey_absent)

lemma run_fetch_failed:
  "service_key env = Some k \<Longrightarrow> k \<noteq> [] \<Longrightarrow>
   euroFetch env 0 (gamesPath (param_or (query env) ''code'' ''E'') (getSeasonCode (query env))) = Inl e \<Longrightarrow>
   run v env = Inl e"
  unfolding run_def Let_def by (simp add: getSupabaseKey_present)

lemma run_shape_mismatch:
  assumes "service_key env = Some k" "k \<noteq> []"
    and "euroFetch env 0 (gamesPath (param_or (query env) ''code'' ''E'') (getSeasonCode (query env))) = Inr gd"
    and "\<not> nullish gd" "\<not> is_array gd" "\<not> is_array (get gd ''data'')"
  shows "run v env = Inr (Inl (errorResponse env ''Unexpected API response format'' 500))"
proof -
  have "\<not> is_array (js_or (get gd ''data'') gd)" using assms(5,6) by (simp add: js_or_def)
  then show ?thesis
    unfolding run_def Let_def using assms by (simp add: getSupabaseKey_present)
qed

lemma run_early_is_shape_error:
  assumes "run v env = Inr (Inl early)"
  shows "early = errorResponse env ''Unexpected API response format'' 500"
proof -
  let ?code = "param_or (query env) ''code'' ''E''"
  let ?sc = "getSeasonCode (query env)"
  obtain k where k: "getSupabaseKey env = Inr k"
    using assms unfolding run_def Let_def by (cases "getSupabaseKey env") simp_all
  obtain gd where gd: "euroFetch env 0 (gamesPath ?code ?sc) = Inr gd"
    using assms k unfolding run_def Let_def by (cases "euroFetch env 0 (gamesPath ?code ?sc)") simp_all
  obtain g0 where g0: "(if is_array gd then Inr gd else bindE (getE gd ''data'') (\<lambda>d. Inr (js_or d gd))) = Inr g0"
    using assms k gd unfolding run_def Let_def
    by (cases "(if is_array gd then Inr gd else bindE (getE gd ''data'') (\<lambda>d. Inr (js_or d gd)))") simp_all
  show ?thesis
  proof (cases "is_array g0")
    case False
    then show ?thesis using assms k gd g0 unfolding run_def Let_def by simp
  next
    case True
    have "\<exists>x. run v env = Inl x \<or> (\<exists>r. run v env = Inr (Inr r))"
      using k gd g0 True unfolding run_def Let_def
      by (auto simp: bindE_def split: sum.splits)
    with assms show ?thesis by auto
  qed
qed

lemma sync_trichotomy:
  "(status (sync v env) = 200 \<and> get (body (sync v env)) ''success'' = Bool True)
   \<or> (status (sync v env) = 204 \<and> preflight env)
   \<or> (status (sync v env) = 500 \<and> get (body (sync v env)) ''success'' = Undefined)"
proof (cases "preflight env")
  case True
  then show ?thesis by (simp add: sync_preflight)
next
  case False
  show ?thesis
  proof (cases "run v env")
    case (Inl e)
    then show ?thesis using False by (simp add: sync_thrown errorResponse_fields)
  next
    case (Inr x)
    show ?thesis
    proof (cases x)
      case (Inl early)
      then show ?thesis
        using False Inr run_early_is_shape_error [of v env early]
        by (simp add: sync_early errorResponse_fields)
    next
      case r: (Inr r)
      then show ?thesis using False Inr by (simp add: sync_done respond_fields)
    qed
  qed
qed

text \<open>
  C2 (as amended).  A request that is not a preflight, with the credential present and a
  stage-1 response that is a list or holds one under \<open>data\<close>, gets 200 and
  \<open>success: true\<close>, whatever the statuses the store answers and whichever boxscore
  fetches fail, as long as no exception escapes (the store answers every request, no game
  is \<open>null\<close>, the fetches are benign).  A 500 without \<open>success\<close> is the response when
  the credential is absent, when the stage-1 fetch itself fails ("Sync failed: ..."),
  and when the stage-1 response is neither a list nor holds one ("Unexpected API response
  format").  Every response is 200 with \<open>success: true\<close>, the 204 of a preflight, or
  500 without \<open>success\<close>.
\<close>

theorem sync_status:
  "(\<not> preflight env \<and> service_key env = Some k \<and> k \<noteq> []
      \<and> euroFetch env 0 (gamesPath (param_or (query env) ''code'' ''E'') (getSeasonCode (query env))) = Inr gd
      \<and> (gd = Arr games \<or> get gd ''data'' = Arr games)
      \<and> list_all (\<lambda>g. \<not> nullish g) games
      \<and> (\<forall>url key i b. \<exists>st t. store env url key i b = StoreResponse st t)
      \<and> (query env ''skipBoxscores'' = Some ''true'' \<or> query env ''skipBoxscores'' = Some ''1''
          \<or> list_all (benignFetch v env (param_or (query env) ''code'' ''E'') (getSeasonCode (query env)))
               (numbered (filter eligibleGame (keptGames (query env ''games'') games))))
    \<longrightarrow> status (sync v env) = 200 \<and> get (body (sync v env)) ''success'' = Bool True)
   \<and> (\<not> preflight env \<and> (service_key env = None \<or> service_key env = Some [])
    \<longrightarrow> status (sync v env) = 500 \<and> get (body (sync v env)) ''success'' = Undefined)
   \<and> (\<not> preflight env \<and> service_key env = Some k \<and> k \<noteq> []
      \<and> euroFetch env 0 (gamesPath (param_or (query env) ''code'' ''E'') (getSeasonCode (query env))) = Inl e
    \<longrightarrow> status (sync v env) = 500 \<and> get (body (sync v env)) ''success'' = Undefined
        \<and> get (body (sync v env)) ''error'' = Str (''Sync failed: '' @ message e))
   \<and> (\<not> preflight env \<and> service_key env = Some k \<and> k \<noteq> []
      \<and> euroFetch env 0 (gamesPath (param_or (query env) ''code'' ''E'') (getSeasonCode (query env))) = Inr gd
      \<and> \<not> nullish gd \<and> \<not> is_array gd \<and> \<not> is_array (get gd ''data'')
    \<longrightarrow> status (sync v env) = 500 \<and> get (body (sync v env)) ''success'' = Undefined
        \<and> get (body (sync v env)) ''error'' = Str ''Unexpected API response format'')
   \<and> ((status (sync v env) = 200 \<and> get (body (sync v env)) ''success'' = Bool True)
      \<or> (status (sync v env) = 204 \<and> preflight env)
      \<or> (status (sync v env) = 500 \<and> get (body (sync v env)) ''success'' = Undefined))"
proof (intro conjI impI)
  assume a: "\<not> preflight env \<and> service_key env = Some k \<and> k \<noteq> []
      \<and> euroFetch env 0 (gamesPath (param_or (query env) ''code'' ''E'') (getSeasonCode (query env))) = Inr gd
      \<and> (gd = Arr games \<or> get gd ''data'' = Arr games)
      \<and> list_all (\<lambda>g. \<not> nullish g) games
      \<and> (\<forall>url key i b. \<exists>st t. store env url key i b = StoreResponse st t)
      \<and> (query env ''skipBoxscores'' = Some ''true'' \<or> query env ''skipBoxscores'' = Some ''1''
          \<or> list_all (benignFetch v env (param_or (query env) ''code'' ''E'') (getSeasonCode (query env)))
               (numbered (filter eligibleGame (keptGames (query env ''games'') games))))"
  then obtain r where r: "run v env = Inr (Inr r)"
    using run_completes [of env k gd games v] by blast
  with a show "status (sync v env) = 200" and "get (body (sync v env)) ''success'' = Bool True"
    by (simp_all add: sync_done respond_fields)
next
  assume a: "\<not> preflight env \<and> (service_key env = None \<or> service_key env = Some [])"
  then show "status (sync v env) = 500" and "get (body (sync v env)) ''success'' = Undefined"
    using run_no_key [of env v] by (simp_all add: sync_thrown errorResponse_fields)
next
  assume a: "\<not> preflight env \<and> service_key env = Some k \<and> k \<noteq> []
      \<and> euroFetch env 0 (gamesPath (param_or (query env) ''code'' ''E'') (getSeasonCode (query env))) = Inl e"
  then have "run v env = Inl e" using run_fetch_failed by blast
  with a show "status (sync v env) = 500" and "get (body (sync v env)) ''success'' = Undefined"
    and "get (body (sync v env)) ''error'' = Str (''Sync failed: '' @ message e)"
    by (simp_all add: sync_thrown errorResponse_fields)
next
  assume a: "\<not> preflight env \<and> service_key env = Some k \<and> k \<noteq> []
      \<and> euroFetch env 0 (gamesPath (param_or (query env) ''code'' ''E'') (getSeasonCode (query env))) = Inr gd
      \<and> \<not> nullish gd \<and> \<not> is_array gd \<and> \<not> is_array (get gd ''data'')"
  then have "run v env = Inr (Inl (errorResponse env ''Unexpected API response format'' 500))"
    using run_shape_mismatch by blast
  with a show "status (sync v env) = 500" and "get (body (sync v env)) ''success'' = Undefined"
    and "get (body (sync v env)) ''error'' = Str ''Unexpected API response format''"
    by (simp_all add: sync_early errorResponse_fields)
next
  show "(status (sync v env) = 200 \<and> get (body (sync v env)) ''success'' = Bool True)
      \<or> (status (sync v env) = 204 \<and> preflight env)
      \<or> (status (sync v env) = 500 \<and> get (body (sync v env)) ''success'' = Undefined)"
    by (rule sync_trichotomy)
qed

subsection \<open>The isolation of boxscore failures\<close>














subsection \<open>The games filter\<close>













subsection \<open>The scenarios of the error lists and of the fan-out\<close>

text \<open>Six failed fetches in the stats version leave five entries in the response; the run
  on games 1, 2 and 7 in sync.js reports its one entry.\<close>

theorem error_lists_capped_in_stats_version_witness:
  "get (get (body (sync Stats env_six_failures)) ''boxscores'') ''errors''
     = Arr [Str ''Game 1: fetch failed'', Str ''Game 2: fetch failed'', Str ''Game 3: fetch failed'',
            Str ''Game 4: fetch failed'', Str ''Game 5: fetch failed'']
   \<and> get (get (body (sync Flat (env_1_2_7 store_accepts))) ''boxscores'') ''errors''
     = Arr [Str ''Game 7: EuroLeague API returned 404 for /competitions/E/seasons/E2025/games/7/boxscore'']"
proof -
  let ?r = "projr (projr (run Stats env_six_failures))"
  let ?r' = "projr (projr (run Flat (env_1_2_7 store_accepts)))"
  have h1: "\<not> preflight env_six_failures \<and> run Stats env_six_failures = Inr (Inr ?r)"
    by code_simp
  have h2: "\<not> preflight (env_1_2_7 store_accepts)
            \<and> run Flat (env_1_2_7 store_accepts) = Inr (Inr ?r')"
    by code_simp
  have v1: "(if o_doBoxscores ?r \<and> bs_errors (o_boxscoreStats ?r) \<noteq> []
             then Arr (map Str (take 5 (bs_errors (o_boxscoreStats ?r)))) else Undefined)
            = Arr [Str ''Game 1: fetch failed'', Str ''Game 2: fetch failed'', Str ''Game 3: fetch failed'',
                   Str ''Game 4: fetch failed'', Str ''Game 5: fetch failed'']"
    by code_simp
  have v2: "(if o_doBoxscores ?r' \<and> bs_errors (o_boxscoreStats ?r') \<noteq> []
             then Arr (map Str (bs_errors (o_boxscoreStats ?r'))) else Undefined)
            = Arr [Str ''Game 7: EuroLeague API returned 404 for /competitions/E/seasons/E2025/games/7/boxscore'']"
    by code_simp
  note t1 = error_lists_capped_in_stats_version [of env_six_failures ?r ?r', THEN conjunct1, THEN mp, OF h1, THEN conjunct1]
  note t2 = error_lists_capped_in_stats_version [of "env_1_2_7 store_accepts" ?r ?r', THEN conjunct2, THEN mp, OF h2, THEN conjunct1]
  show ?thesis
    by (simp only: t1 t2 v1 v2 simp_thms)
qed

text \<open>With six failed fetches sync.js reports all six entries: its response has no cap.\<close>

theorem error_lists_uncapped_flat_counterexample:
  "get (get (body (sync Flat env_six_failures)) ''boxscores'') ''errors''
     = Arr [Str ''Game 1: fetch failed'', Str ''Game 2: fetch failed'', Str ''Game 3: fetch failed'',
            Str ''Game 4: fetch failed'', Str ''Game 5: fetch failed'', Str ''Game 6: fetch failed'']"
  by code_simp



subsection \<open>The scenarios of the response status\<close>

text \<open>A run in which the store refuses every batch and one boxscore fetch fails still
  answers 200; a missing credential, a failed game list and a game list that is no list
  answer 500.\<close>

theorem sync_status_witness:
  "status (sync Flat (env_1_2_7 store_refuses)) = 200
   \<and> get (body (sync Flat (env_1_2_7 store_refuses))) ''success'' = Bool True
   \<and> get (get (body (sync Flat (env_1_2_7 store_refuses))) ''games'') ''upserted'' = Num 0
   \<and> get (get (body (sync Flat (env_1_2_7 store_refuses))) ''boxscores'') ''fetched'' = Num 2
   \<and> status (sync Flat (env_games_404\<lparr>service_key := None\<rparr>)) = 500
   \<and> get (body (sync Flat (env_games_404\<lparr>service_key := None\<rparr>))) ''success'' = Undefined
   \<and> status (sync Flat env_games_404) = 500
   \<and> get (body (sync Flat env_games_404)) ''success'' = Undefined
   \<and> status (sync Flat env_no_list) = 500
   \<and> get (body (sync Flat env_no_list)) ''success'' = Undefined
   \<and> get (body (sync Flat env_no_list)) ''error'' = Str ''Unexpected API response format''"
proof -
  let ?env = "env_1_2_7 store_refuses"
  let ?gs = "[played_game 1, played_game 2, played_game 7]"
  have a1: "\<not> preflight ?env \<and> service_key ?env = Some ''service-key'' \<and> ''service-key'' \<noteq> []
      \<and> euroFetch ?env 0 (gamesPath (param_or (query ?env) ''code'' ''E'') (getSeasonCode (query ?env)))
          = Inr (Arr ?gs)"
    by code_simp
  have a2: "list_all (\<lambda>g. \<not> nullish g) ?gs" by code_simp
  have a3: "\<forall>url key i b. \<exists>st t. store ?env url key i b = StoreResponse st t"
    by (simp add: env_1_2_7_def example_env_def store_refuses_def)
  have a4: "list_all (benignFetch Flat ?env (param_or (query ?env) ''code'' ''E'') (getSeasonCode (query ?env)))
               (numbered (filter eligibleGame (keptGames (query ?env ''games'') ?gs)))"
    by code_simp
  have a: "\<not> preflight ?env \<and> service_key ?env = Some ''service-key'' \<and> ''service-key'' \<noteq> []
      \<and> euroFetch ?env 0 (gamesPath (param_or (query ?env) ''code'' ''E'') (getSeasonCode (query ?env)))
          = Inr (Arr ?gs)
      \<and> (Arr ?gs = Arr ?gs \<or> get (Arr ?gs) ''data'' = Arr ?gs)
      \<and> list_all (\<lambda>g. \<not> nullish g) ?gs
      \<and> (\<forall>url key i b. \<exists>st t. store ?env url key i b = StoreResponse st t)
      \<and> (query ?env ''skipBoxscores'' = Some ''true'' \<or> query ?env ''skipBoxscores'' = Some ''1''
          \<or> list_all (benignFetch Flat ?env (param_or (query ?env) ''code'' ''E'') (getSeasonCode (query ?env)))
               (numbered (filter eligibleGame (keptGames (query ?env ''games'') ?gs))))"
    using a1 a2 a3 a4 by blast
  note A = sync_status [where env = ?env and k = "''service-key''" and gd = "Arr ?gs" and games = ?gs
      and v = Flat, THEN conjunct1, THEN mp, OF a]
  have extra: "get (get (body (sync Flat ?env)) ''games'') ''upserted'' = Num 0
      \<and> get (get (body (sync Flat ?env)) ''boxscores'') ''fetched'' = Num 2"
    by code_simp
  have b: "\<not> preflight (env_games_404\<lparr>service_key := None\<rparr>)
      \<and> (service_key (env_games_404\<lparr>service_key := None\<rparr>) = None
          \<or> service_key (env_games_404\<lparr>service_key := None\<rparr>) = Some [])"
    by (simp add: env_games_404_def example_env_def)
  note B = sync_status [where env = "env_games_404\<lparr>service_key := None\<rparr>" and v = Flat,
      THEN conjunct2, THEN conjunct1, THEN mp, OF b]
  have c: "\<not> preflight env_games_404 \<and> service_key env_games_404 = Some ''service-key''
      \<and> ''service-key'' \<noteq> []
      \<and> euroFetch env_games_404 0 (gamesPath (param_or (query env_games_404) ''code'' ''E'')
            (getSeasonCode (query env_games_404)))
          = Inl (Error ''EuroLeague API returned 404 for /competitions/E/seasons/E2025/games'')"
    by code_simp
  note C = sync_status [where env = env_games_404 and k = "''service-key''" and v = Flat
      and e = "Error ''EuroLeague API returned 404 for /competitions/E/seasons/E2025/games''",
      THEN conjunct2, THEN conjunct2, THEN conjunct1, THEN mp, OF c]
  have d: "\<not> preflight env_no_list \<and> service_key env_no_list = Some ''service-key''
      \<and> ''service-key'' \<noteq> []
      \<and> euroFetch env_no_list 0 (gamesPath (param_or (query env_no_list) ''code'' ''E'')
            (getSeasonCode (query env_no_list)))
          = Inr (Obj [(''message'', Str ''no games'')])
      \<and> \<not> nullish (Obj [(''message'', Str ''no games'')])
      \<and> \<not> is_array (Obj [(''message'', Str ''no games'')])
      \<and> \<not> is_array (get (Obj [(''message'', Str ''no games'')]) ''data'')"
    by code_simp
  note D = sync_status [where env = env_no_list and k = "''service-key''" and v = Flat
      and gd = "Obj [(''message'', Str ''no games'')]",
      THEN conjunct2, THEN conjunct2, THEN conjunct2, THEN conjunct1, THEN mp, OF d]
  show ?thesis
    using A B C D extra by blast
qed

text \<open>The credential is present and the game list request answers 404: there is no
  stage-1 response whose shape could be wrong, and the response is 500 without
  \<open>success\<close>.\<close>

theorem games_fetch_failure_counterexample:
  "service_key env_games_404 = Some ''service-key''
   \<and> status (sync Flat env_games_404) = 500
   \<and> get (body (sync Flat env_games_404)) ''success'' = Undefined
   \<and> get (body (sync Flat env_games_404)) ''error''
       = Str ''Sync failed: EuroLeague API returned 404 for /competitions/E/seasons/E2025/games''"
  by code_simp

subsection \<open>The reported eligibility count\<close>

text \<open>
  C6 (the code departs from the claim).  The boxscores are fetched for the games with
  \<open>played === true\<close> or a status among "Played", "Live", "Playing", but the count
  reported as \<open>eligible\<close> is recomputed with another test, which leaves out the status
  "Played".  For a game list that holds one game of status "Played" with no \<open>played\<close>
  flag, one boxscore is fetched and the response reports \<open>eligible: 0\<close>, in both
  versions of the handler.
\<close>

theorem eligible_count_misses_played_status:
  "get (get (body (sync Flat env_status_played)) ''boxscores'') ''eligible'' = Num 0
   \<and> get (get (body (sync Flat env_status_played)) ''boxscores'') ''fetched'' = Num 1
   \<and> get (get (body (sync Flat env_status_played)) ''boxscores'') ''playersUpserted'' = Num 1
   \<and> get (get (body (sync Stats env_status_played)) ''boxscores'') ''eligible'' = Num 0
   \<and> get (get (body (sync Stats env_status_played)) ''boxscores'') ''fetched'' = Num 1"
  by code_simp

end
